theory Spec2Isabelle
  imports Main
begin

section \<open>Python strings\<close>

text \<open>
  The tool is one Python script, \<^verbatim>\<open>run.py\<close>. Its strings are modelled as \<^typ>\<open>string\<close>;
  the string methods it calls are written out below with Python's meaning.
\<close>

text \<open>\<^verbatim>\<open>sep.join(xs)\<close>.\<close>

fun join :: "string \<Rightarrow> string list \<Rightarrow> string" where
  "join sep [] = []"
| "join sep [x] = x"
| "join sep (x # y # ys) = x @ sep @ join sep (y # ys)"

text \<open>\<^verbatim>\<open>s.replace(a, b)\<close> for one-character \<^verbatim>\<open>a\<close> and \<^verbatim>\<open>b\<close>.\<close>

definition replace :: "char \<Rightarrow> char \<Rightarrow> string \<Rightarrow> string" where
  "replace a b s = map (\<lambda>c. if c = a then b else c) s"

text \<open>\<^verbatim>\<open>s.rfind(c)\<close>: the highest index of \<^verbatim>\<open>c\<close> in \<^verbatim>\<open>s\<close>, or \<open>-1\<close>.\<close>

fun rfind :: "string \<Rightarrow> char \<Rightarrow> int" where
  "rfind [] c = - 1"
| "rfind (x # xs) c =
     (let r = rfind xs c in if 0 \<le> r then r + 1 else if x = c then 0 else - 1)"

text \<open>
  \<^verbatim>\<open>s.lower()\<close> on ASCII text: the letters A to Z are put in lower case. Python also
  lower-cases the cased letters outside ASCII, which \<open>lower\<close> leaves as they are; it is
  Python's \<^verbatim>\<open>lower\<close> exactly on the strings that \<open>ascii\<close> accepts, and a statement that
  speaks of the lower case of an arbitrary string assumes \<open>ascii\<close> of it.
\<close>

definition ascii :: "string \<Rightarrow> bool" where
  "ascii s = list_all (\<lambda>c. (of_char c :: nat) < 128) s"

definition lower_char :: "char \<Rightarrow> char" where
  "lower_char c =
     (case map_of (zip ''ABCDEFGHIJKLMNOPQRSTUVWXYZ'' ''abcdefghijklmnopqrstuvwxyz'') c of
        None \<Rightarrow> c
      | Some l \<Rightarrow> l)"

definition lower :: "string \<Rightarrow> string" where
  "lower s = map lower_char s"

text \<open>\<^verbatim>\<open>s.lstrip(".")\<close>.\<close>

definition lstrip :: "char \<Rightarrow> string \<Rightarrow> string" where
  "lstrip c s = dropWhile (\<lambda>x. x = c) s"

text \<open>\<^verbatim>\<open>s.split(c)\<close>: the pieces of \<^verbatim>\<open>s\<close> between the occurrences of \<^verbatim>\<open>c\<close>.\<close>

fun split_on :: "char \<Rightarrow> string \<Rightarrow> string list" where
  "split_on c [] = [[]]"
| "split_on c (x # xs) =
     (if x = c then [] # split_on c xs
      else (case split_on c xs of [] \<Rightarrow> [[x]] | p # ps \<Rightarrow> (x # p) # ps))"

text \<open>\<^verbatim>\<open>a in b\<close> on strings: \<^verbatim>\<open>a\<close> occurs in \<^verbatim>\<open>b\<close> as a substring.\<close>

fun is_prefix :: "string \<Rightarrow> string \<Rightarrow> bool" where
  "is_prefix [] ys = True"
| "is_prefix (x # xs) [] = False"
| "is_prefix (x # xs) (y # ys) = (x = y \<and> is_prefix xs ys)"

fun str_in :: "string \<Rightarrow> string \<Rightarrow> bool" where
  "str_in a [] = (a = [])"
| "str_in a (y # ys) = (is_prefix a (y # ys) \<or> str_in a ys)"

text \<open>\<^verbatim>\<open>str(n)\<close> for an integer, as the f-strings format exit codes.\<close>

fun digits :: "nat \<Rightarrow> string" where
  "digits n =
     (if n < 10 then [''0123456789'' ! n]
      else digits (n div 10) @ [''0123456789'' ! (n mod 10)])"

declare digits.simps [simp del]

definition str_int :: "int \<Rightarrow> string" where
  "str_int i = (if i < 0 then CHR ''-'' # digits (nat (- i)) else digits (nat i))"

section \<open>Paths\<close>

text \<open>
  A \<^verbatim>\<open>pathlib\<close> path of the POSIX flavour: its root (\<open>''''\<close> for a relative path,
  \<open>''/''\<close> or \<open>''//''\<close> for an absolute one) and its components.
\<close>

datatype path = Path (root_of: string) (parts_of: "string list")

datatype py_error = ValueError | UnicodeDecodeError | AttributeError | TypeError | OSError

text \<open>\<^verbatim>\<open>except ValueError\<close> also catches \<^verbatim>\<open>UnicodeDecodeError\<close>, a subclass.\<close>

definition is_ValueError :: "py_error \<Rightarrow> bool" where
  "is_ValueError e = (e = ValueError \<or> e = UnicodeDecodeError)"

text \<open>
  \<^verbatim>\<open>Path(s)\<close>: the string is cut at the slashes; empty components and \<^verbatim>\<open>.\<close> are dropped.
  Exactly two leading slashes are kept as the root \<^verbatim>\<open>//\<close>.
\<close>

definition parse_root :: "string \<Rightarrow> string" where
  "parse_root s =
     (if is_prefix ''///'' s then ''/''
      else if is_prefix ''//'' s then ''//''
      else if is_prefix ''/'' s then ''/''
      else [])"

definition parse_path :: "string \<Rightarrow> path" where
  "parse_path s =
     Path (parse_root s) (filter (\<lambda>p. p \<noteq> [] \<and> p \<noteq> ''.'') (split_on CHR ''/'' s))"

text \<open>\<^verbatim>\<open>p / s\<close>: a string with a root replaces \<^verbatim>\<open>p\<close>, any other is appended.\<close>

definition joinpath :: "path \<Rightarrow> string \<Rightarrow> path" where
  "joinpath p s =
     (let q = parse_path s
      in if root_of q \<noteq> [] then q else Path (root_of p) (parts_of p @ parts_of q))"

text \<open>\<^verbatim>\<open>str(p)\<close> and \<^verbatim>\<open>p.as_posix()\<close>, which agree for this flavour.\<close>

definition as_posix :: "path \<Rightarrow> string" where
  "as_posix p =
     (if root_of p = [] \<and> parts_of p = [] then ''.''
      else root_of p @ join ''/'' (parts_of p))"

text \<open>\<^verbatim>\<open>p.name\<close>: the last component, or the empty string.\<close>

definition name_of :: "path \<Rightarrow> string" where
  "name_of p = (if parts_of p = [] then [] else last (parts_of p))"

text \<open>
  \<^verbatim>\<open>p.suffix\<close>: the name from its last dot on, when that dot is neither the first nor
  the last character of the name (the rule of Python 3.10 to 3.13).
\<close>

definition suffix_of_name :: "string \<Rightarrow> string" where
  "suffix_of_name n =
     (let i = rfind n CHR ''.''
      in if 0 < i \<and> i < int (length n) - 1 then drop (nat i) n else [])"

definition suffix :: "path \<Rightarrow> string" where
  "suffix p = suffix_of_name (name_of p)"

text \<open>\<^verbatim>\<open>p.with_suffix("")\<close>: raises \<^verbatim>\<open>ValueError\<close> on an empty name.\<close>

definition with_suffix_empty :: "path \<Rightarrow> py_error + path" where
  "with_suffix_empty p =
     (let n = name_of p
      in if n = [] then Inl ValueError
         else Inr (Path (root_of p)
                     (butlast (parts_of p) @ [take (length n - length (suffix p)) n])))"

text \<open>
  \<^verbatim>\<open>p.relative_to(q)\<close>: the components of \<^verbatim>\<open>p\<close> below \<^verbatim>\<open>q\<close>, as a relative path;
  \<^verbatim>\<open>ValueError\<close> when \<^verbatim>\<open>q\<close> is not \<^verbatim>\<open>p\<close> or one of its parents.
\<close>

definition relative_to :: "path \<Rightarrow> path \<Rightarrow> py_error + path" where
  "relative_to p q =
     (if root_of p = root_of q \<and> take (length (parts_of q)) (parts_of p) = parts_of q
      then Inr (Path [] (drop (length (parts_of q)) (parts_of p)))
      else Inl ValueError)"

section \<open>The target resolver\<close>

text \<open>
  \<^verbatim>\<open>normalize_target_in_project(file_path, project_root)\<close>. \<^verbatim>\<open>resolve\<close> reads the file
  system (current directory, symbolic links), so it is a parameter \<open>rs\<close>. The
  \<^verbatim>\<open>except Exception\<close> branch continues with the bare file name, which \<^verbatim>\<open>Path(rel)\<close>
  parses again.
\<close>

definition normalize_target_in_project ::
  "(path \<Rightarrow> path) \<Rightarrow> path \<Rightarrow> path \<Rightarrow> py_error + string" where
  "normalize_target_in_project rs file_path project_root =
     (let rel = (case relative_to (rs file_path) (rs project_root) of
                   Inr r \<Rightarrow> r
                 | Inl _ \<Rightarrow> parse_path (name_of file_path))
      in case with_suffix_empty rel of
           Inl e \<Rightarrow> Inl e
         | Inr no_ext \<Rightarrow>
             (let posix_no_ext = as_posix no_ext;
                  base = replace CHR ''/'' CHR ''_'' posix_no_ext;
                  ext = lstrip CHR ''.'' (lower (suffix file_path))
              in Inr (if ext \<noteq> [] then base @ ''_'' @ ext else base)))"

section \<open>The environment prober\<close>

text \<open>
  What \<^verbatim>\<open>json.loads\<close> returns: \<^verbatim>\<open>None\<close>, a bool, a number, a string, a list or a
  dict. A dict is kept as its key-value pairs in document order. The value of a number
  plays no role in the script.
\<close>

datatype json =
    JNull
  | JBool bool
  | JNumber int
  | JString string
  | JArray "json list"
  | JObject "(string \<times> json) list"

text \<open>\<^verbatim>\<open>d.get(k, default)\<close>: of two pairs with the same key the later one counts.\<close>

definition dict_get :: "(string \<times> json) list \<Rightarrow> string \<Rightarrow> json \<Rightarrow> json" where
  "dict_get kvs k d = (case map_of (rev kvs) k of None \<Rightarrow> d | Some v \<Rightarrow> v)"

text \<open>
  \<^verbatim>\<open>x.get("name")\<close> on a decoded value: only a dict has the method, every other value
  raises \<^verbatim>\<open>AttributeError\<close>.
\<close>

definition get_attr :: "json \<Rightarrow> string \<Rightarrow> json \<Rightarrow> py_error + json" where
  "get_attr x k d = (case x of JObject kvs \<Rightarrow> Inr (dict_get kvs k d) | _ \<Rightarrow> Inl AttributeError)"

text \<open>
  \<^verbatim>\<open>for g in x\<close>: a list yields its elements, a string its characters, a dict its keys
  in the order of first insertion; the other values are not iterable.
\<close>

definition py_iter :: "json \<Rightarrow> py_error + json list" where
  "py_iter x =
     (case x of
        JArray xs \<Rightarrow> Inr xs
      | JString cs \<Rightarrow> Inr (map (\<lambda>c. JString [c]) cs)
      | JObject kvs \<Rightarrow> Inr (map JString (rev (remdups (rev (map fst kvs)))))
      | _ \<Rightarrow> Inl TypeError)"

text \<open>A list or a dict cannot be a member of a Python set.\<close>

definition hashable :: "json \<Rightarrow> bool" where
  "hashable x = (case x of JArray _ \<Rightarrow> False | JObject _ \<Rightarrow> False | _ \<Rightarrow> True)"

text \<open>
  The outcome of \<^verbatim>\<open>subprocess.run(["cmake", "-E", "capabilities"], check=True, ...)\<close>
  followed by \<^verbatim>\<open>json.loads\<close>: the program is not on the path, it cannot be started for
  another reason, it exits with a non-zero code, its output is not text in the expected
  encoding (\<^verbatim>\<open>text=True\<close> decodes it), its output is text but not JSON, or its output
  decodes to a value.
\<close>

datatype capabilities_run =
    FileNotFound
  | NotExecutable
  | NonZeroExit int
  | UndecodableOutput
  | JSONDecodeError
  | Decoded json

text \<open>
  \<^verbatim>\<open>read_capabilities()\<close>: the three caught exceptions give the empty dict; an
  \<^verbatim>\<open>OSError\<close> other than \<^verbatim>\<open>FileNotFoundError\<close> and a \<^verbatim>\<open>UnicodeDecodeError\<close> are not
  caught.
\<close>

definition read_capabilities :: "capabilities_run \<Rightarrow> py_error + json" where
  "read_capabilities c =
     (case c of
        FileNotFound \<Rightarrow> Inr (JObject [])
      | NonZeroExit _ \<Rightarrow> Inr (JObject [])
      | JSONDecodeError \<Rightarrow> Inr (JObject [])
      | NotExecutable \<Rightarrow> Inl OSError
      | UndecodableOutput \<Rightarrow> Inl UnicodeDecodeError
      | Decoded j \<Rightarrow> Inr j)"

text \<open>The set comprehension \<^verbatim>\<open>{g.get("name") for g in ...}\<close>, element by element.\<close>

fun set_of_names :: "json list \<Rightarrow> py_error + json list" where
  "set_of_names [] = Inr []"
| "set_of_names (g # gs) =
     (case get_attr g ''name'' JNull of
        Inl e \<Rightarrow> Inl e
      | Inr v \<Rightarrow>
          if \<not> hashable v then Inl TypeError
          else (case set_of_names gs of Inl e \<Rightarrow> Inl e | Inr vs \<Rightarrow> Inr (v # vs)))"

text \<open>The loop \<^verbatim>\<open>for candidate in preferred: if candidate in available: return candidate\<close>.\<close>

fun first_available :: "string list \<Rightarrow> json list \<Rightarrow> string option" where
  "first_available [] available = None"
| "first_available (candidate # rest) available =
     (if JString candidate \<in> set available then Some candidate
      else first_available rest available)"

definition choose_generator :: "capabilities_run \<Rightarrow> string list \<Rightarrow> py_error + string option" where
  "choose_generator c preferred =
     (case read_capabilities c of
        Inl e \<Rightarrow> Inl e
      | Inr data \<Rightarrow>
          (case get_attr data ''generators'' (JArray []) of
             Inl e \<Rightarrow> Inl e
           | Inr gens \<Rightarrow>
               (case py_iter gens of
                  Inl e \<Rightarrow> Inl e
                | Inr gs \<Rightarrow>
                    (case set_of_names gs of
                       Inl e \<Rightarrow> Inl e
                     | Inr available \<Rightarrow> Inr (first_available preferred available)))))"

text \<open>
  Truth of an optional string, as \<^verbatim>\<open>if x\<close>, \<^verbatim>\<open>not x\<close> and \<^verbatim>\<open>x or y\<close> test it:
  \<^verbatim>\<open>None\<close> and the empty string are false.
\<close>

definition truthy :: "string option \<Rightarrow> bool" where
  "truthy x = (case x of None \<Rightarrow> False | Some v \<Rightarrow> v \<noteq> [])"

text \<open>\<^verbatim>\<open>choose_compiler(preferred)\<close>; \<open>wh\<close> is \<^verbatim>\<open>shutil.which\<close>.\<close>

fun choose_compiler :: "(string \<Rightarrow> string option) \<Rightarrow> string list \<Rightarrow> string option" where
  "choose_compiler wh [] = None"
| "choose_compiler wh (compiler # rest) =
     (if truthy (wh compiler) then Some compiler else choose_compiler wh rest)"

definition PREFERRED_GENERATORS :: "string list" where
  "PREFERRED_GENERATORS =
     [''Ninja Multi-Config'', ''Ninja'', ''Unix Makefiles'', ''MinGW Makefiles'',
      ''Visual Studio 17 2022'']"

definition PREFERRED_COMPILERS_C :: "string list" where
  "PREFERRED_COMPILERS_C = [''cc'', ''gcc'', ''clang'', ''cl'']"

definition PREFERRED_COMPILERS_CXX :: "string list" where
  "PREFERRED_COMPILERS_CXX = [''c++'', ''g++'', ''clang++'', ''cl'']"

definition is_multi_config :: "string \<Rightarrow> bool" where
  "is_multi_config gen =
     (let name = lower gen
      in str_in ''multi-config'' name \<or> str_in ''visual studio'' name)"

section \<open>The world outside the script\<close>

text \<open>
  The result of starting a command with \<^verbatim>\<open>subprocess.run\<close>: it ran and ended with the
  return code that Python reports, which is the exit status from 0 to 255 of a program
  that exited and minus the signal number of a program that a signal killed; or it
  could not be started (an \<^verbatim>\<open>OSError\<close>).
\<close>

datatype process_result = Exited int | NotStarted

text \<open>What reading the log file back gives in \<^verbatim>\<open>fail_with_log\<close>.\<close>

datatype log_status = LogReadable | LogUnreadable | LogMissing

text \<open>
  Everything the script asks of its surroundings: the search path, the environment
  variables, the platform, the current directory and the file system, and what each
  external command does.
\<close>

record world =
  which :: "string \<Rightarrow> string option"
  environ :: "string \<Rightarrow> string option"
  os_nt :: bool
  cwd :: path
  resolve :: "path \<Rightarrow> path"
  capabilities :: capabilities_run
  run_process :: "string list \<Rightarrow> process_result"
  exists_after_build :: "path \<Rightarrow> bool"
  mkdtemp :: "string \<Rightarrow> path"
  rmtree_ok :: "path \<Rightarrow> bool"
  log_file_status :: log_status

text \<open>The parsed command line (\<^verbatim>\<open>parsed\<close> in \<^verbatim>\<open>main\<close>).\<close>

record arguments =
  arg_file :: string
  arg_args :: "string list"
  arg_generator :: "string option"
  arg_config :: "string option"
  arg_cmake_arg :: "string list"
  arg_build_arg :: "string list"
  arg_list_generators :: bool
  arg_print_binary :: bool

text \<open>
  One item of standard output: the argument of one \<^verbatim>\<open>print\<close> call. The text of the log
  file and the formatted name of a generator are kept abstract.
\<close>

datatype out_item = Line string | LogText | GeneratorLine json

text \<open>
  What the script changes: its standard output, the lines it writes to the log itself,
  the command lines it hands to \<^verbatim>\<open>subprocess.run\<close> (the capabilities query apart), and
  the temporary directories it has created that are still on disk.
\<close>

record state =
  stdout :: "out_item list"
  log :: "string list"
  commands :: "string list list"
  temp_dirs :: "path list"

text \<open>
  How a block is left other than by falling through: \<^verbatim>\<open>sys.exit(code)\<close>, a
  \<^verbatim>\<open>CalledProcessError\<close> carrying the return code, or another exception.
\<close>

datatype exn = SystemExit int | CalledProcessError int | Raised py_error

text \<open>
  The exit status the operating system reports for the interpreter: 0 when \<^verbatim>\<open>main\<close>
  returns, the argument of \<^verbatim>\<open>sys.exit\<close> modulo 256, and 1 after an uncaught exception.
\<close>

definition exit_code :: "exn + unit \<Rightarrow> int" where
  "exit_code r =
     (case r of Inr _ \<Rightarrow> 0 | Inl (SystemExit code) \<Rightarrow> code mod 256 | Inl _ \<Rightarrow> 1)"

definition print :: "string \<Rightarrow> state \<Rightarrow> state" where
  "print msg s = s\<lparr>stdout := stdout s @ [Line msg]\<rparr>"

definition DEFAULT_CONFIG :: "world \<Rightarrow> string" where
  "DEFAULT_CONFIG w = (case environ w ''CMAKE_BUILD_CONFIG'' of None \<Rightarrow> ''Debug'' | Some v \<Rightarrow> v)"

definition LOG_FILE :: path where
  "LOG_FILE = parse_path ''build_output.log''"

definition fail :: "string \<Rightarrow> int \<Rightarrow> state \<Rightarrow> (exn + 'a) \<times> state" where
  "fail message code s = (Inl (SystemExit code), print message s)"

definition fail_with_log ::
  "world \<Rightarrow> string \<Rightarrow> path \<Rightarrow> int \<Rightarrow> state \<Rightarrow> (exn + 'a) \<times> state" where
  "fail_with_log w message log_file code s =
     (let s1 = print message s;
          s2 = print (''---- build log ('' @ as_posix log_file @ '') ----'') s1;
          s3 = (case log_file_status w of
                  LogReadable \<Rightarrow> s2\<lparr>stdout := stdout s2 @ [LogText]\<rparr>
                | LogUnreadable \<Rightarrow> print ''(failed to read log)'' s2
                | LogMissing \<Rightarrow> print ''(log file not found)'' s2);
          s4 = print ''---- end log ----'' s3
      in (Inl (SystemExit code), s4))"

text \<open>
  \<^verbatim>\<open>subprocess.run(cmd, check=True, ...)\<close>: a non-zero exit raises
  \<^verbatim>\<open>CalledProcessError\<close>.
\<close>

definition subprocess_run :: "world \<Rightarrow> string list \<Rightarrow> state \<Rightarrow> (exn + unit) \<times> state" where
  "subprocess_run w cmd s =
     (let s1 = s\<lparr>commands := commands s @ [cmd]\<rparr>
      in case run_process w cmd of
           Exited rc \<Rightarrow> if rc = 0 then (Inr (), s1) else (Inl (CalledProcessError rc), s1)
         | NotStarted \<Rightarrow> (Inl (Raised OSError), s1))"

section \<open>Build steps\<close>

text \<open>The command line \<^verbatim>\<open>cmd\<close> that \<^verbatim>\<open>configure_build\<close> assembles.\<close>

definition configure_cmd :: "string \<Rightarrow> string \<Rightarrow> string list \<Rightarrow> string list" where
  "configure_cmd gen build_config extra_args =
     (let cmd = [''cmake'', ''-S'', ''.'', ''-B'', ''build'', ''-G'', gen, ''-Wno-dev''];
          cmd1 = (if \<not> is_multi_config gen
                  then cmd @ [''-DCMAKE_BUILD_TYPE='' @ build_config] else cmd);
          cmd2 = (if extra_args \<noteq> [] then cmd1 @ extra_args else cmd1)
      in cmd2)"

definition configure_build ::
  "world \<Rightarrow> string \<Rightarrow> string \<Rightarrow> string list \<Rightarrow> state \<Rightarrow> (exn + unit) \<times> state" where
  "configure_build w gen build_config extra_args s =
     subprocess_run w (configure_cmd gen build_config extra_args)
       (s\<lparr>log := log s @ [''Configuring with generator: '' @ gen @ [CHR 0x0A]]\<rparr>)"

text \<open>The command line that \<^verbatim>\<open>build_target\<close> assembles.\<close>

definition build_cmd :: "string \<Rightarrow> string \<Rightarrow> string \<Rightarrow> string list \<Rightarrow> string list" where
  "build_cmd target gen build_config extra_args =
     (let cmd = [''cmake'', ''--build'', ''build'', ''--target'', target];
          cmd1 = (if is_multi_config gen then cmd @ [''--config'', build_config] else cmd);
          cmd2 = (if extra_args \<noteq> [] then cmd1 @ extra_args else cmd1)
      in cmd2)"

definition build_target ::
  "world \<Rightarrow> string \<Rightarrow> string \<Rightarrow> string \<Rightarrow> string list \<Rightarrow> state \<Rightarrow> (exn + unit) \<times> state" where
  "build_target w target gen build_config extra_args s =
     subprocess_run w (build_cmd target gen build_config extra_args)
       (s\<lparr>log := log s @ [''Building target: '' @ target @ [CHR 0x0A]]\<rparr>)"

text \<open>The command line that \<^verbatim>\<open>direct_compile\<close> assembles.\<close>

definition compile_cmd :: "string \<Rightarrow> string \<Rightarrow> bool \<Rightarrow> path \<Rightarrow> string list" where
  "compile_cmd file_path compiler is_c output =
     (if compiler = ''cl''
      then (let std_flag = (if is_c then ''/std:c17'' else ''/std:c++20'');
                lang_flag = (if is_c then ''/TC'' else ''/TP'')
            in [compiler, file_path, lang_flag, std_flag, ''/Fe'' @ as_posix output, ''/nologo''])
      else (let std_flag = (if is_c then ''-std=c17'' else ''-std=c++20'')
            in [compiler, file_path, std_flag, ''-O0'', ''-g'', ''-o'', as_posix output]))"

text \<open>
  \<^verbatim>\<open>direct_compile\<close>: the temporary directory is created first, then the compiler runs;
  the path of the output is returned only when the compiler succeeds.
\<close>

definition direct_compile ::
  "world \<Rightarrow> string \<Rightarrow> string \<Rightarrow> bool \<Rightarrow> state \<Rightarrow> (exn + path) \<times> state" where
  "direct_compile w file_path compiler is_c s =
     (let temp_dir = mkdtemp w (if is_c then ''c-run-'' else ''cpp-run-'');
          s1 = s\<lparr>temp_dirs := temp_dirs s @ [temp_dir]\<rparr>;
          output = joinpath temp_dir (if os_nt w then ''a.exe'' else ''a.out'');
          cmd = compile_cmd file_path compiler is_c output;
          s2 = s1\<lparr>log := log s1 @ [''Compiling with '' @ compiler @ [CHR 0x0A]]\<rparr>
      in case subprocess_run w cmd s2 of
           (Inl e, s3) \<Rightarrow> (Inl e, s3)
         | (Inr _, s3) \<Rightarrow> (Inr output, s3))"

definition exe_path :: "world \<Rightarrow> string \<Rightarrow> string \<Rightarrow> path" where
  "exe_path w target gen =
     (let base = parse_path ''build'';
          base1 = (if is_multi_config gen then joinpath base (DEFAULT_CONFIG w) else base);
          sfx = (if os_nt w then ''.exe'' else [])
      in joinpath base1 (target @ sfx))"

section \<open>The orchestrator\<close>

text \<open>\<^verbatim>\<open>try: block  except subprocess.CalledProcessError as err: handler\<close>.\<close>

definition except_CalledProcessError ::
  "(exn + 'a) \<times> state \<Rightarrow> (int \<Rightarrow> state \<Rightarrow> (exn + 'a) \<times> state) \<Rightarrow> (exn + 'a) \<times> state" where
  "except_CalledProcessError r handler =
     (case r of
        (Inl (CalledProcessError returncode), s) \<Rightarrow> handler returncode s
      | _ \<Rightarrow> r)"

text \<open>The three messages that report a failed external command.\<close>

definition cmake_failed_message :: "int \<Rightarrow> string" where
  "cmake_failed_message rc =
     ''CMake failed with exit code '' @ str_int rc @ ''. Logs at '' @ as_posix LOG_FILE @ ''.''"

definition compilation_failed_message :: "int \<Rightarrow> string" where
  "compilation_failed_message rc =
     ''Compilation failed with exit code '' @ str_int rc @ ''. Logs at '' @ as_posix LOG_FILE
       @ ''.''"

definition executable_failed_message :: "int \<Rightarrow> string" where
  "executable_failed_message rc = ''Executable returned non-zero exit code '' @ str_int rc"

text \<open>Lines 172 to 178, 195 and 196 of \<^verbatim>\<open>main\<close>.\<close>

definition project_root :: "world \<Rightarrow> path" where
  "project_root w = resolve w (cwd w)"

definition file_abs :: "world \<Rightarrow> arguments \<Rightarrow> path" where
  "file_abs w a = resolve w (parse_path (arg_file a))"

definition in_project :: "world \<Rightarrow> arguments \<Rightarrow> bool" where
  "in_project w a =
     (case relative_to (file_abs w a) (project_root w) of Inr _ \<Rightarrow> True | Inl _ \<Rightarrow> False)"

definition is_c :: "arguments \<Rightarrow> bool" where
  "is_c a = (lower (suffix (parse_path (arg_file a))) = ''.c'')"

definition build_config :: "world \<Rightarrow> arguments \<Rightarrow> string" where
  "build_config w a =
     (case arg_config a of
        None \<Rightarrow> DEFAULT_CONFIG w
      | Some c \<Rightarrow> if c \<noteq> [] then c else DEFAULT_CONFIG w)"

text \<open>\<^verbatim>\<open>parsed.generator or choose_generator(PREFERRED_GENERATORS)\<close>.\<close>

definition select_generator :: "world \<Rightarrow> arguments \<Rightarrow> py_error + string option" where
  "select_generator w a =
     (if truthy (arg_generator a) then Inr (arg_generator a)
      else choose_generator (capabilities w) PREFERRED_GENERATORS)"

text \<open>The list comprehension \<^verbatim>\<open>[g.get("name") for g in ...]\<close>.\<close>

fun list_of_names :: "json list \<Rightarrow> py_error + json list" where
  "list_of_names [] = Inr []"
| "list_of_names (g # gs) =
     (case get_attr g ''name'' JNull of
        Inl e \<Rightarrow> Inl e
      | Inr v \<Rightarrow> (case list_of_names gs of Inl e \<Rightarrow> Inl e | Inr vs \<Rightarrow> Inr (v # vs)))"

text \<open>Lines 184 to 193: \<^verbatim>\<open>--list-generators\<close>.\<close>

definition list_generators :: "world \<Rightarrow> state \<Rightarrow> (exn + unit) \<times> state" where
  "list_generators w s =
     (case read_capabilities (capabilities w) of
        Inl e \<Rightarrow> (Inl (Raised e), s)
      | Inr caps \<Rightarrow>
          (case get_attr caps ''generators'' (JArray []) of
             Inl e \<Rightarrow> (Inl (Raised e), s)
           | Inr gens \<Rightarrow>
               (case py_iter gens of
                  Inl e \<Rightarrow> (Inl (Raised e), s)
                | Inr gs \<Rightarrow>
                    (case list_of_names gs of
                       Inl e \<Rightarrow> (Inl (Raised e), s)
                     | Inr names \<Rightarrow>
                         (let s1 =
                            (if names = []
                             then print ''No generators found. Ensure CMake is installed and on PATH.'' s
                             else (let s' = print ''Available CMake generators:'' s
                                   in s'\<lparr>stdout := stdout s' @ map GeneratorLine names\<rparr>))
                          in (Inl (SystemExit 0), s1))))))"

text \<open>
  Lines 199 to 213: \<^verbatim>\<open>--print-binary\<close>. The \<^verbatim>\<open>except ValueError\<close> also catches
  the \<^verbatim>\<open>ValueError\<close> of the target resolver and a \<^verbatim>\<open>UnicodeDecodeError\<close> of the
  generator query.
\<close>

definition print_binary :: "world \<Rightarrow> arguments \<Rightarrow> state \<Rightarrow> (exn + unit) \<times> state" where
  "print_binary w a s =
     (let project_root_temp = resolve w (cwd w);
          file_abs_temp = resolve w (parse_path (arg_file a))
      in case relative_to file_abs_temp project_root_temp of
           Inl _ \<Rightarrow> (Inl (SystemExit 0), print ''(file outside project)'' s)
         | Inr _ \<Rightarrow>
             (case normalize_target_in_project (resolve w) file_abs_temp project_root_temp of
                Inl e \<Rightarrow>
                  if is_ValueError e
                  then (Inl (SystemExit 0), print ''(file outside project)'' s)
                  else (Inl (Raised e), s)
              | Inr target_temp \<Rightarrow>
                  (case select_generator w a of
                     Inl e \<Rightarrow>
                       if is_ValueError e
                       then (Inl (SystemExit 0), print ''(file outside project)'' s)
                       else (Inl (Raised e), s)
                   | Inr gen_temp \<Rightarrow>
                       (case gen_temp of
                          None \<Rightarrow> (Inl (SystemExit 0), print ''(no generator available)'' s)
                        | Some g \<Rightarrow>
                            if g = []
                            then (Inl (SystemExit 0), print ''(no generator available)'' s)
                            else (Inl (SystemExit 0),
                                  print (as_posix (resolve w (exe_path w target_temp g))) s)))))"

text \<open>
  Lines 217 to 226, and again lines 230 to 239 with the same statements: choose a
  compiler and compile the file directly. On success the result is the binary and the
  directory to remove later, \<^verbatim>\<open>binary.parent\<close>.
\<close>

definition parent :: "path \<Rightarrow> path" where
  "parent p = Path (root_of p) (butlast (parts_of p))"

definition fallback_compile ::
  "world \<Rightarrow> arguments \<Rightarrow> state \<Rightarrow> (exn + path \<times> path option) \<times> state" where
  "fallback_compile w a s =
     (let compiler_list = (if is_c a then PREFERRED_COMPILERS_C else PREFERRED_COMPILERS_CXX)
      in case choose_compiler (which w) compiler_list of
           None \<Rightarrow> fail (''No compiler found. Looked for: '' @ join '', '' compiler_list) 1 s
         | Some compiler \<Rightarrow>
             if compiler = []
             then fail (''No compiler found. Looked for: '' @ join '', '' compiler_list) 1 s
             else except_CalledProcessError
                    (case direct_compile w (arg_file a) compiler (is_c a) s of
                       (Inl e, s1) \<Rightarrow> (Inl e, s1)
                     | (Inr binary, s1) \<Rightarrow> (Inr (binary, Some (parent binary)), s1))
                    (\<lambda>returncode. fail_with_log w (compilation_failed_message returncode)
                                     LOG_FILE returncode))"

text \<open>Lines 241 to 254: configure, build and locate the binary.\<close>

definition project_build ::
  "world \<Rightarrow> arguments \<Rightarrow> state \<Rightarrow> (exn + path \<times> path option) \<times> state" where
  "project_build w a s =
     (case normalize_target_in_project (resolve w) (file_abs w a) (project_root w) of
        Inl e \<Rightarrow> (Inl (Raised e), s)
      | Inr target \<Rightarrow>
          (case select_generator w a of
             Inl e \<Rightarrow> (Inl (Raised e), s)
           | Inr None \<Rightarrow>
               fail (''No suitable CMake generator found. Tried: ''
                       @ join '', '' PREFERRED_GENERATORS) 1 s
           | Inr (Some gen) \<Rightarrow>
               if gen = []
               then fail (''No suitable CMake generator found. Tried: ''
                            @ join '', '' PREFERRED_GENERATORS) 1 s
               else
                 (case except_CalledProcessError
                         (case configure_build w gen (build_config w a) (arg_cmake_arg a) s of
                            (Inl e, s1) \<Rightarrow> (Inl e, s1)
                          | (Inr _, s1) \<Rightarrow>
                              build_target w target gen (build_config w a) (arg_build_arg a) s1)
                         (\<lambda>returncode. fail_with_log w (cmake_failed_message returncode)
                                          LOG_FILE returncode) of
                    (Inl e, s2) \<Rightarrow> (Inl e, s2)
                  | (Inr _, s2) \<Rightarrow>
                      (let binary = exe_path w target gen
                       in if \<not> exists_after_build w binary
                          then fail (''Built binary not found at '' @ as_posix binary) 1 s2
                          else (Inr (binary, None), s2)))))"

text \<open>The two notices that announce the fallback to direct compilation.\<close>

definition notice_no_cmake :: string where
  "notice_no_cmake = ''CMake is not installed or not on PATH; falling back to direct compilation.''"

definition notice_outside :: string where
  "notice_outside =
     ''Warning: the provided file is outside this project; falling back to direct compilation.''"

text \<open>Lines 215 to 254: the choice between the two ways of building.\<close>

definition prepare ::
  "world \<Rightarrow> arguments \<Rightarrow> state \<Rightarrow> (exn + path \<times> path option) \<times> state" where
  "prepare w a s =
     (if which w ''cmake'' = None
      then fallback_compile w a (print notice_no_cmake s)
      else if \<not> in_project w a
      then fallback_compile w a (print notice_outside s)
      else project_build w a s)"

text \<open>
  The \<^verbatim>\<open>finally\<close> block, lines 266 to 270. A temporary directory exists as long as it is
  among \<open>temp_dirs\<close>; an \<^verbatim>\<open>OSError\<close> of \<^verbatim>\<open>shutil.rmtree\<close> is passed over.
\<close>

definition cleanup :: "world \<Rightarrow> path option \<Rightarrow> state \<Rightarrow> state" where
  "cleanup w cleanup_dir s =
     (case cleanup_dir of
        None \<Rightarrow> s
      | Some d \<Rightarrow>
          if d \<in> set (temp_dirs s)
          then (if rmtree_ok w d then s\<lparr>temp_dirs := removeAll d (temp_dirs s)\<rparr> else s)
          else s)"

text \<open>Lines 256 to 270: run the binary, then clean up whatever the run did.\<close>

definition execute ::
  "world \<Rightarrow> path \<Rightarrow> string list \<Rightarrow> path option \<Rightarrow> state \<Rightarrow> (exn + unit) \<times> state" where
  "execute w binary exec_args cleanup_dir s =
     (let s1 = print (''--- Executing: '' @ as_posix binary) s;
          s2 = (if exec_args \<noteq> [] then print (''--- Arguments: '' @ join '' '' exec_args) s1
                else s1);
          s3 = print (''-------------------------------'' @ [CHR 0x0A]) s2
      in case except_CalledProcessError
                (subprocess_run w (as_posix binary # exec_args) s3)
                (\<lambda>returncode. fail (executable_failed_message returncode) returncode) of
           (r, s4) \<Rightarrow> (r, cleanup w cleanup_dir s4))"

definition initial_state :: state where
  "initial_state = \<lparr>stdout = [], log = [], commands = [], temp_dirs = []\<rparr>"

definition main :: "world \<Rightarrow> arguments \<Rightarrow> (exn + unit) \<times> state" where
  "main w a =
     (if arg_list_generators a then list_generators w initial_state
      else if arg_print_binary a then print_binary w a initial_state
      else (case prepare w a initial_state of
              (Inl e, s) \<Rightarrow> (Inl e, s)
            | (Inr (binary, cleanup_dir), s) \<Rightarrow> execute w binary (arg_args a) cleanup_dir s))"

section \<open>The target identifier as the specification words it\<close>


text \<open>The extension of a file name: what follows its last dot, when a stem is left before it.\<close>

definition ext_of_name :: "string \<Rightarrow> string" where
  "ext_of_name n =
     (let e = rev (takeWhile (\<lambda>c. c \<noteq> CHR ''.'') (rev n))
      in if e \<noteq> [] \<and> length e + 1 < length n then e else [])"



section \<open>The reported generators as the specification words it\<close>

text \<open>
  The capability manifest lists the generators as objects under the key
  \<^verbatim>\<open>generators\<close>, each with its \<^verbatim>\<open>name\<close>. A generator is reported when a string of
  that name is the name of one of these objects. The list is well formed when every
  entry is an object whose name can be a member of a set.
\<close>

fun generator_name :: "json \<Rightarrow> json option" where
  "generator_name (JObject ps) = Some (dict_get ps ''name'' JNull)"
| "generator_name _ = None"

definition reported :: "json list \<Rightarrow> string \<Rightarrow> bool" where
  "reported gs x = (Some (JString x) \<in> generator_name ` set gs)"

definition well_formed_generators :: "json list \<Rightarrow> bool" where
  "well_formed_generators gs =
     list_all (\<lambda>g. case generator_name g of None \<Rightarrow> False | Some v \<Rightarrow> hashable v) gs"

section \<open>Example machines\<close>

text \<open>
  A machine without cmake whose C compiler works and whose compiled programs exit with
  code 7; the same machine with a compiler that fails; and a machine with cmake that
  reports two Ninja generators and builds everything. The project is \<^verbatim>\<open>/home/u/proj\<close>;
  \<open>example_resolve\<close> makes a path absolute from there and removes each \<^verbatim>\<open>..\<close> with the
  component before it, as on a file system without symbolic links.
\<close>

fun collapse :: "string list \<Rightarrow> string list \<Rightarrow> string list" where
  "collapse seen [] = rev seen"
| "collapse seen (p # ps) =
     (if p = ''..'' then collapse (tl seen) ps else collapse (p # seen) ps)"

definition example_resolve :: "path \<Rightarrow> path" where
  "example_resolve p =
     (if root_of p = []
      then Path ''/'' (collapse [] ([''home'', ''u'', ''proj''] @ parts_of p))
      else Path (root_of p) (collapse [] (parts_of p)))"

text \<open>
  The same file system with one symbolic link in the project: \<^verbatim>\<open>link.c\<close> points to
  \<^verbatim>\<open>sub/real.cpp\<close>.
\<close>

definition symlink_resolve :: "path \<Rightarrow> path" where
  "symlink_resolve p =
     (if example_resolve p = Path ''/'' [''home'', ''u'', ''proj'', ''link.c'']
      then Path ''/'' [''home'', ''u'', ''proj'', ''sub'', ''real.cpp'']
      else example_resolve p)"

definition world_without_cmake :: world where
  "world_without_cmake =
     \<lparr>which = (\<lambda>n. if n = ''cc'' then Some ''/usr/bin/cc'' else None),
      environ = (\<lambda>_. None),
      os_nt = False,
      cwd = Path ''/'' [''home'', ''u'', ''proj''],
      resolve = example_resolve,
      capabilities = FileNotFound,
      run_process = (\<lambda>cmd. if hd cmd = ''cc'' then Exited 0 else Exited 7),
      exists_after_build = (\<lambda>_. False),
      mkdtemp = (\<lambda>prefix. Path ''/'' [''tmp'', prefix @ ''k3x9'']),
      rmtree_ok = (\<lambda>_. True),
      log_file_status = LogReadable\<rparr>"

definition world_failing_compiler :: world where
  "world_failing_compiler = world_without_cmake\<lparr>run_process := (\<lambda>cmd. Exited 1)\<rparr>"

definition world_with_cmake :: world where
  "world_with_cmake =
     \<lparr>which = (\<lambda>n. if n = ''cmake'' then Some ''/usr/bin/cmake'' else None),
      environ = (\<lambda>_. None),
      os_nt = False,
      cwd = Path ''/'' [''home'', ''u'', ''proj''],
      resolve = example_resolve,
      capabilities = Decoded (JObject [(''generators'',
         JArray [JObject [(''name'', JString ''Ninja Multi-Config'')],
                 JObject [(''name'', JString ''Ninja'')]])]),
      run_process = (\<lambda>cmd. Exited 0),
      exists_after_build = (\<lambda>_. True),
      mkdtemp = (\<lambda>prefix. Path ''/'' [''tmp'', prefix @ ''k3x9'']),
      rmtree_ok = (\<lambda>_. True),
      log_file_status = LogReadable\<rparr>"

definition example_arguments :: arguments where
  "example_arguments =
     \<lparr>arg_file = ''src/foo.c'', arg_args = [], arg_generator = None, arg_config = None,
      arg_cmake_arg = [], arg_build_arg = [], arg_list_generators = False,
      arg_print_binary = False\<rparr>"

definition release_arguments :: arguments where
  "release_arguments = example_arguments\<lparr>arg_config := Some ''Release''\<rparr>"

text \<open>A name that \<^verbatim>\<open>Path\<close> keeps as one component.\<close>

definition plain_name :: "string \<Rightarrow> bool" where
  "plain_name n = (n \<noteq> [] \<and> n \<noteq> ''.'' \<and> CHR ''/'' \<notin> set n)"

section \<open>Strings and paths: basic facts\<close>

lemma join_snoc: "join sep (xs @ [x]) = (if xs = [] then x else join sep xs @ sep @ x)"
  by (induction sep xs rule: join.induct) auto

lemma replace_append: "replace a b (s @ t) = replace a b s @ replace a b t"
  by (simp add: replace_def)

lemma replace_absent: "a \<notin> set s \<Longrightarrow> replace a b s = s"
  by (induction s) (auto simp: replace_def)

lemma replace_join:
  "\<forall>p\<in>set xs. a \<notin> set p \<Longrightarrow> replace a b (join [a] xs) = join [b] xs"
  by (induction "[a]" xs rule: join.induct) (auto simp: replace_append replace_absent, simp add: replace_def)

lemma rfind_absent: "c \<notin> set s \<Longrightarrow> rfind s c = - 1"
  by (induction s) (auto simp: Let_def)

lemma rfind_last: "c \<notin> set e \<Longrightarrow> rfind (stem @ c # e) c = int (length stem)"
  by (induction stem) (auto simp: Let_def rfind_absent)

lemma suffix_of_name_split:
  assumes "CHR ''.'' \<notin> set e"
  shows "suffix_of_name (stem @ CHR ''.'' # e) = (if stem \<noteq> [] \<and> e \<noteq> [] then CHR ''.'' # e else [])"
  using assms by (auto simp: suffix_of_name_def rfind_last Let_def)

lemma suffix_of_name_nodot: "CHR ''.'' \<notin> set n \<Longrightarrow> suffix_of_name n = []"
  by (simp add: suffix_of_name_def rfind_absent)

lemma lower_char_dot: "(lower_char c = CHR ''.'') = (c = CHR ''.'')"
  by (simp add: lower_char_def)

lemma takeWhile_neq_absent:
  "c \<notin> set n \<Longrightarrow> takeWhile (\<lambda>x. x \<noteq> c) (n @ zs) = n @ takeWhile (\<lambda>x. x \<noteq> c) zs"
  by (induction n) auto

lemma takeWhile_neq_rev:
  "c \<notin> set n \<Longrightarrow> takeWhile (\<lambda>x. x \<noteq> c) (rev n @ zs) = rev n @ takeWhile (\<lambda>x. x \<noteq> c) zs"
  using takeWhile_neq_absent [of c "rev n" zs] by simp

lemma takeWhile_neq_rev_all:
  "c \<notin> set n \<Longrightarrow> takeWhile (\<lambda>x. x \<noteq> c) (rev n) = rev n"
  using takeWhile_neq_absent [of c "rev n" "[]"] by simp

lemma suffix_of_name_ext:
  "suffix_of_name n = (if ext_of_name n = [] then [] else CHR ''.'' # ext_of_name n)"
proof (cases "CHR ''.'' \<in> set n")
  case False
  then show ?thesis
    by (simp add: suffix_of_name_nodot ext_of_name_def takeWhile_neq_rev_all del: takeWhile_eq_all_conv)
next
  case True
  then obtain stem e where n: "n = stem @ CHR ''.'' # e" and e: "CHR ''.'' \<notin> set e"
    by (meson split_list_last)
  from e have "takeWhile (\<lambda>c. c \<noteq> CHR ''.'') (rev n) = rev e"
    unfolding n by (simp add: takeWhile_neq_rev)
  then show ?thesis
    using e by (auto simp: n suffix_of_name_split ext_of_name_def)
qed




lemma ext_of_name_nodot: "CHR ''.'' \<notin> set (ext_of_name n)"
  by (auto simp: ext_of_name_def Let_def dest: set_takeWhileD)

lemma lstrip_lower_suffix:
  "lstrip CHR ''.'' (lower (suffix_of_name n)) = lower (ext_of_name n)"
proof (cases "ext_of_name n")
  case Nil
  then show ?thesis by (simp add: suffix_of_name_ext lstrip_def lower_def)
next
  case (Cons c cs)
  with ext_of_name_nodot [of n] have "c \<noteq> CHR ''.''" by auto
  with Cons show ?thesis
    by (simp add: suffix_of_name_ext lstrip_def lower_def lower_char_dot)
qed


lemma normalize_inside:
  assumes "rs f = f" "rs root = root"
    and "root_of f = root_of root"
    and "parts_of f = parts_of root @ rel"
    and "rel \<noteq> []" "last rel \<noteq> []"
  shows "normalize_target_in_project rs f root =
     Inr (replace CHR ''/'' CHR ''_''
            (join ''/'' (butlast rel @
               [take (length (last rel) - length (suffix_of_name (last rel))) (last rel)]))
          @ (if ext_of_name (last rel) = [] then []
             else CHR ''_'' # lower (ext_of_name (last rel))))"
proof -
  have rel: "relative_to f root = Inr (Path [] rel)"
    using assms(3,4) by (simp add: relative_to_def)
  have nm: "name_of f = last rel" "name_of (Path [] rel) = last rel"
    using assms(4,5) by (simp_all add: name_of_def)
  have ws: "with_suffix_empty (Path [] rel) =
      Inr (Path [] (butlast rel @
         [take (length (last rel) - length (suffix_of_name (last rel))) (last rel)]))"
    using assms(6) by (simp add: with_suffix_empty_def nm suffix_def Let_def)
  have ext: "lstrip CHR ''.'' (lower (suffix f)) = lower (ext_of_name (last rel))"
    by (simp add: suffix_def nm lstrip_lower_suffix)
  show ?thesis
    by (simp add: normalize_target_in_project_def assms(1,2) rel ws ext as_posix_def Let_def lower_def [of "ext_of_name (last rel)"])
qed

lemma take_stem:
  "take (length n - length (suffix_of_name n)) n =
     (if ext_of_name n = [] then n else take (length n - (length (ext_of_name n) + 1)) n)"
  by (simp add: suffix_of_name_ext)

lemma join_Cons: "join sep (x # xs) = x @ (if xs = [] then [] else sep @ join sep xs)"
  by (cases xs) simp_all

lemma takeWhile_stop:
  "c \<notin> set x \<Longrightarrow> takeWhile (\<lambda>a. a \<noteq> c) (x @ (if b then [] else [c] @ r')) = x"
  by (induction x) auto

lemma join_head_eq:
  assumes "c \<notin> set x" "c \<notin> set y"
    and "x @ (if xs = [] then [] else [c] @ join [c] xs) = y @ (if ys = [] then [] else [c] @ join [c] ys)"
  shows "x = y"
proof -
  have "takeWhile (\<lambda>a. a \<noteq> c) (x @ (if xs = [] then [] else [c] @ join [c] xs)) = x"
    using assms(1) by (rule takeWhile_stop)
  moreover have "takeWhile (\<lambda>a. a \<noteq> c) (y @ (if ys = [] then [] else [c] @ join [c] ys)) = y"
    using assms(2) by (rule takeWhile_stop)
  ultimately show ?thesis
    using assms(3) by simp
qed

lemma join_inj:
  assumes "\<forall>p\<in>set xs. c \<notin> set p" "\<forall>p\<in>set ys. c \<notin> set p"
    and "xs \<noteq> []" "ys \<noteq> []" "join [c] xs = join [c] ys"
  shows "xs = ys"
  using assms
proof (induction xs arbitrary: ys)
  case Nil
  then show ?case by simp
next
  case (Cons x xs)
  from Cons.prems(4) obtain y ys' where ys: "ys = y # ys'"
    by (cases ys) auto
  from Cons.prems(5) have eq:
    "x @ (if xs = [] then [] else [c] @ join [c] xs) = y @ (if ys' = [] then [] else [c] @ join [c] ys')"
    unfolding ys join_Cons .
  have xy: "x = y"
    using Cons.prems(1,2) eq by (intro join_head_eq [of c x y xs ys']) (simp_all add: ys)
  with eq have rest: "(if xs = [] then [] else [c] @ join [c] xs) = (if ys' = [] then [] else [c] @ join [c] ys')"
    by simp
  show ?case
  proof (cases "xs = []")
    case True
    with rest have "ys' = []" by (auto split: if_splits)
    with True xy ys show ?thesis by simp
  next
    case False
    with rest have ne: "ys' \<noteq> []" and j: "join [c] xs = join [c] ys'"
      by (auto split: if_splits)
    have "xs = ys'"
      using Cons.prems(1,2) False ne j by (intro Cons.IH) (simp_all add: ys)
    with xy ys show ?thesis by simp
  qed
qed

lemma ext_of_name_sub: "set (ext_of_name n) \<subseteq> set n"
  by (auto simp: ext_of_name_def Let_def dest: set_takeWhileD)

lemma suffix_of_name_Nil_iff: "(suffix_of_name n = []) = (ext_of_name n = [])"
  by (simp add: suffix_of_name_ext)

lemma name_split_ext:
  "ext_of_name n \<noteq> [] \<Longrightarrow>
     n = take (length n - length (suffix_of_name n)) n @ CHR ''.'' # ext_of_name n"
proof -
  assume "ext_of_name n \<noteq> []"
  then have "suffix_of_name n = CHR ''.'' # ext_of_name n"
    by (simp add: suffix_of_name_ext)
  moreover have "suffix_of_name n = [] \<or> suffix_of_name n = drop (length n - length (suffix_of_name n)) n"
    by (auto simp: suffix_of_name_def Let_def)
  ultimately have "drop (length n - length (suffix_of_name n)) n = CHR ''.'' # ext_of_name n"
    by auto
  then show ?thesis
    by (metis append_take_drop_id)
qed

lemma normalize_as_join:
  assumes "rs f = f" "rs root = root"
    and "root_of f = root_of root" "parts_of f = parts_of root @ rel" "rel \<noteq> []"
    and "\<forall>p\<in>set rel. p \<noteq> [] \<and> CHR ''/'' \<notin> set p"
  shows "normalize_target_in_project rs f root =
     Inr (join ''_'' (butlast rel @
            [take (length (last rel) - length (suffix_of_name (last rel))) (last rel)] @
            (if ext_of_name (last rel) = [] then [] else [lower (ext_of_name (last rel))])))"
proof -
  let ?n = "last rel"
  let ?stem = "take (length ?n - length (suffix_of_name ?n)) ?n"
  have n: "?n \<noteq> []" "CHR ''/'' \<notin> set ?n"
    using assms(5,6) by simp_all
  have "CHR ''/'' \<notin> set ?stem"
    using n(2) by (auto dest: in_set_takeD)
  moreover have "\<forall>p\<in>set (butlast rel). CHR ''/'' \<notin> set p"
    using assms(6) by (auto dest: in_set_butlastD)
  ultimately have "\<forall>p\<in>set (butlast rel @ [?stem]). CHR ''/'' \<notin> set p"
    by simp
  then have "replace CHR ''/'' CHR ''_'' (join ''/'' (butlast rel @ [?stem])) =
      join ''_'' (butlast rel @ [?stem])"
    by (rule replace_join)
  moreover have "join ''_'' ((butlast rel @ [?stem]) @ [e]) = join ''_'' (butlast rel @ [?stem]) @ CHR ''_'' # e" for e
    by (simp only: join_snoc) simp
  ultimately show ?thesis
    using normalize_inside [OF assms(1-5) n(1)] by simp
qed

section \<open>The target resolver: files inside the project root\<close>





text \<open>
  The root itself is not a file below the root: its relative path has no name, and
  \<^verbatim>\<open>with_suffix\<close> raises.
\<close>

lemma normalize_root_itself:
  "rs root = root \<Longrightarrow> normalize_target_in_project rs root root = Inl ValueError"
  by (simp add: normalize_target_in_project_def relative_to_def with_suffix_empty_def
        name_of_def)

section \<open>The target resolver: distinct files\<close>

text \<open>
  Claim C1, as amended. The claim as stated fails: the separator and the dot before the
  extension both become an underscore, and the extension is put in lower case, so
  \<^verbatim>\<open>a/b.c\<close> and \<^verbatim>\<open>a_b.c\<close>, \<^verbatim>\<open>foo.C\<close> and \<^verbatim>\<open>foo.c\<close>, \<^verbatim>\<open>a/b\<close> and \<^verbatim>\<open>a.b\<close> each share one
  identifier; and a symbolic link shares the identifier of a file beside its target.
  What holds: two different file paths that \<^verbatim>\<open>resolve\<close> returns unchanged,
  strictly below a project root that \<^verbatim>\<open>resolve\<close> returns unchanged, get different
  identifiers when no component of their relative paths contains an underscore, their
  extensions consist of ASCII characters none of which is an upper-case letter, and
  either both have an extension or neither has.
\<close>

theorem resolveTarget_injective:
  assumes "rs f1 = f1" "rs f2 = f2" "rs root = root"
    and "root_of f1 = root_of root" "parts_of f1 = parts_of root @ rel1" "rel1 \<noteq> []"
    and "root_of f2 = root_of root" "parts_of f2 = parts_of root @ rel2" "rel2 \<noteq> []"
    and "\<forall>p\<in>set rel1 \<union> set rel2. p \<noteq> [] \<and> CHR ''/'' \<notin> set p \<and> CHR ''_'' \<notin> set p"
    and "(suffix f1 = []) = (suffix f2 = [])"
    and "lower (suffix f1) = suffix f1" "lower (suffix f2) = suffix f2"
    and "f1 \<noteq> f2"
    and "ascii (suffix f1)" "ascii (suffix f2)"
  shows "normalize_target_in_project rs f1 root \<noteq> normalize_target_in_project rs f2 root"
proof
  assume same: "normalize_target_in_project rs f1 root = normalize_target_in_project rs f2 root"
  let ?n1 = "last rel1" and ?n2 = "last rel2"
  let ?stem1 = "take (length ?n1 - length (suffix_of_name ?n1)) ?n1"
  let ?stem2 = "take (length ?n2 - length (suffix_of_name ?n2)) ?n2"
  let ?e1 = "ext_of_name ?n1" and ?e2 = "ext_of_name ?n2"
  let ?l1 = "butlast rel1 @ [?stem1] @ (if ?e1 = [] then [] else [lower ?e1])"
  let ?l2 = "butlast rel2 @ [?stem2] @ (if ?e2 = [] then [] else [lower ?e2])"
  have sfx: "suffix f1 = suffix_of_name ?n1" "suffix f2 = suffix_of_name ?n2"
    using assms(5,6,8,9) by (simp_all add: suffix_def name_of_def)
  have low: "lower ?e1 = ?e1" "lower ?e2 = ?e2"
    using assms(12,13) unfolding sfx
    by (simp_all add: suffix_of_name_ext lower_def split: if_splits)
  have both: "(?e1 = []) = (?e2 = [])"
    using assms(11) unfolding sfx by (simp add: suffix_of_name_Nil_iff)
  have us: "CHR ''_'' \<notin> set ?n1" "CHR ''_'' \<notin> set ?n2"
    using assms(6,9,10) by auto
  have v1: "\<forall>p\<in>set rel1. p \<noteq> [] \<and> CHR ''/'' \<notin> set p"
    and v2: "\<forall>p\<in>set rel2. p \<noteq> [] \<and> CHR ''/'' \<notin> set p"
    using assms(10) by auto
  have "join ''_'' ?l1 = join ''_'' ?l2"
    using normalize_as_join [OF assms(1,3,4,5,6) v1] normalize_as_join [OF assms(2,3,7,8,9) v2]
      same by simp
  moreover have "\<forall>p\<in>set ?l1. CHR ''_'' \<notin> set p"
    using assms(10) us(1) ext_of_name_sub [of ?n1] low(1)
    by (auto dest: in_set_butlastD in_set_takeD)
  moreover have "\<forall>p\<in>set ?l2. CHR ''_'' \<notin> set p"
    using assms(10) us(2) ext_of_name_sub [of ?n2] low(2)
    by (auto dest: in_set_butlastD in_set_takeD)
  ultimately have l: "?l1 = ?l2"
    by (intro join_inj [of ?l1 "CHR ''_''" ?l2]) simp_all
  have "butlast rel1 = butlast rel2 \<and> ?n1 = ?n2"
  proof (cases "?e1 = []")
    case True
    with both have "?e2 = []" by simp
    with True l show ?thesis
      by (simp add: take_stem)
  next
    case False
    with both have ne2: "?e2 \<noteq> []" by simp
    from False ne2 l have "butlast rel1 = butlast rel2" "?stem1 = ?stem2" "?e1 = ?e2"
      by (simp_all add: low)
    moreover have "?n1 = ?stem1 @ CHR ''.'' # ?e1" "?n2 = ?stem2 @ CHR ''.'' # ?e2"
      using False ne2 by (simp_all add: name_split_ext [symmetric])
    ultimately show ?thesis by simp
  qed
  then have "rel1 = rel2"
    using assms(6,9) by (metis append_butlast_last_id)
  then have "f1 = f2"
    using assms(4,5,7,8) by (simp add: path.expand)
  with assms(14) show False by simp
qed

theorem resolveTarget_injective_witness:
  "normalize_target_in_project (\<lambda>p. p)
     (Path ''/'' [''home'', ''u'', ''proj'', ''src'', ''foo.c''])
     (Path ''/'' [''home'', ''u'', ''proj''])
   \<noteq> normalize_target_in_project (\<lambda>p. p)
     (Path ''/'' [''home'', ''u'', ''proj'', ''lib'', ''foo.c''])
     (Path ''/'' [''home'', ''u'', ''proj''])"
  by (rule resolveTarget_injective [where ?rel1.0 = "[''src'', ''foo.c'']"
        and ?rel2.0 = "[''lib'', ''foo.c'']"])
     (simp_all add: suffix_def name_of_def suffix_of_name_def lower_def lower_char_def
        ascii_def)

text \<open>
  The four collisions that refute claim C1 as stated; each pair of files differs in its
  relative path, and the second pair in its extension as well. In the last pair
  \<^verbatim>\<open>link.c\<close> is a symbolic link to \<^verbatim>\<open>sub/real.cpp\<close>.
\<close>

theorem resolveTarget_collisions:
  "normalize_target_in_project (\<lambda>p. p)
     (Path ''/'' [''home'', ''u'', ''proj'', ''a'', ''b.c''])
     (Path ''/'' [''home'', ''u'', ''proj'']) = Inr ''a_b_c''
   \<and> normalize_target_in_project (\<lambda>p. p)
     (Path ''/'' [''home'', ''u'', ''proj'', ''a_b.c''])
     (Path ''/'' [''home'', ''u'', ''proj'']) = Inr ''a_b_c''
   \<and> normalize_target_in_project (\<lambda>p. p)
     (Path ''/'' [''home'', ''u'', ''proj'', ''foo.C''])
     (Path ''/'' [''home'', ''u'', ''proj'']) = Inr ''foo_c''
   \<and> normalize_target_in_project (\<lambda>p. p)
     (Path ''/'' [''home'', ''u'', ''proj'', ''foo.c''])
     (Path ''/'' [''home'', ''u'', ''proj'']) = Inr ''foo_c''
   \<and> normalize_target_in_project (\<lambda>p. p)
     (Path ''/'' [''home'', ''u'', ''proj'', ''a'', ''b''])
     (Path ''/'' [''home'', ''u'', ''proj'']) = Inr ''a_b''
   \<and> normalize_target_in_project (\<lambda>p. p)
     (Path ''/'' [''home'', ''u'', ''proj'', ''a.b''])
     (Path ''/'' [''home'', ''u'', ''proj'']) = Inr ''a_b''
   \<and> normalize_target_in_project symlink_resolve
     (Path ''/'' [''home'', ''u'', ''proj'', ''link.c''])
     (Path ''/'' [''home'', ''u'', ''proj'']) = Inr ''sub_real_c''
   \<and> normalize_target_in_project symlink_resolve
     (Path ''/'' [''home'', ''u'', ''proj'', ''sub'', ''real.c''])
     (Path ''/'' [''home'', ''u'', ''proj'']) = Inr ''sub_real_c''"
  by code_simp

section \<open>The target resolver: files outside the project root\<close>

text \<open>
  Claim C2. The comment in the source promises, for a file outside the root, a name
  that will surely not exist. The code continues with the bare file name instead, so
  \<^verbatim>\<open>/tmp/foo.c\<close>, outside the root \<^verbatim>\<open>/home/u/proj\<close>, gets the identifier \<^verbatim>\<open>foo_c\<close>, the
  identifier of the real file \<^verbatim>\<open>/home/u/proj/foo.c\<close>.
\<close>

theorem outside_root_identifier_collides:
  "relative_to (Path ''/'' [''tmp'', ''foo.c'']) (Path ''/'' [''home'', ''u'', ''proj''])
     = Inl ValueError
   \<and> normalize_target_in_project (\<lambda>p. p)
     (Path ''/'' [''tmp'', ''foo.c''])
     (Path ''/'' [''home'', ''u'', ''proj'']) = Inr ''foo_c''
   \<and> relative_to (Path ''/'' [''home'', ''u'', ''proj'', ''foo.c''])
     (Path ''/'' [''home'', ''u'', ''proj'']) = Inr (Path [] [''foo.c''])
   \<and> normalize_target_in_project (\<lambda>p. p)
     (Path ''/'' [''home'', ''u'', ''proj'', ''foo.c''])
     (Path ''/'' [''home'', ''u'', ''proj'']) = Inr ''foo_c''"
  by code_simp

section \<open>The environment prober: first match in the preference list\<close>

lemma is_prefix_iff: "is_prefix a b = (\<exists>s. b = a @ s)"
  by (induction a b rule: is_prefix.induct) auto

lemma str_in_iff: "str_in a b = (\<exists>p s. b = p @ a @ s)"
proof (induction b)
  case Nil
  then show ?case by auto
next
  case (Cons y ys)
  show ?case
  proof
    assume "str_in a (y # ys)"
    then consider "is_prefix a (y # ys)" | "str_in a ys" by auto
    then show "\<exists>p s. y # ys = p @ a @ s"
    proof cases
      case 1
      then obtain s where "y # ys = a @ s" by (auto simp: is_prefix_iff)
      then have "y # ys = [] @ a @ s" by simp
      then show ?thesis by blast
    next
      case 2
      with Cons obtain p s where "ys = p @ a @ s" by auto
      then have "y # ys = (y # p) @ a @ s" by simp
      then show ?thesis by blast
    qed
  next
    assume "\<exists>p s. y # ys = p @ a @ s"
    then obtain p s where ps: "y # ys = p @ a @ s" by auto
    show "str_in a (y # ys)"
    proof (cases p)
      case Nil
      with ps have "is_prefix a (y # ys)" by (auto simp: is_prefix_iff)
      then show ?thesis by simp
    next
      case (Cons q qs)
      with ps have "ys = qs @ a @ s" by simp
      with Cons.IH have "str_in a ys" by blast
      then show ?thesis by simp
    qed
  qed
qed

lemma find_first_split:
  "(find P xs = Some c) = (\<exists>pre post. xs = pre @ c # post \<and> P c \<and> (\<forall>x\<in>set pre. \<not> P x))"
proof (induction xs)
  case Nil
  then show ?case by simp
next
  case (Cons p ps)
  show ?case
  proof (cases "P p")
    case True
    have "(p = c) = (\<exists>pre post. p # ps = pre @ c # post \<and> P c \<and> (\<forall>x\<in>set pre. \<not> P x))"
    proof
      assume "p = c"
      with True have "p # ps = [] @ c # ps \<and> P c \<and> (\<forall>x\<in>set []. \<not> P x)"
        by simp
      then show "\<exists>pre post. p # ps = pre @ c # post \<and> P c \<and> (\<forall>x\<in>set pre. \<not> P x)"
        by blast
    next
      assume "\<exists>pre post. p # ps = pre @ c # post \<and> P c \<and> (\<forall>x\<in>set pre. \<not> P x)"
      then obtain pre post where "p # ps = pre @ c # post" "\<forall>x\<in>set pre. \<not> P x"
        by auto
      with True show "p = c" by (cases pre) auto
    qed
    with True show ?thesis by simp
  next
    case False
    have "(\<exists>pre post. ps = pre @ c # post \<and> P c \<and> (\<forall>x\<in>set pre. \<not> P x)) =
      (\<exists>pre post. p # ps = pre @ c # post \<and> P c \<and> (\<forall>x\<in>set pre. \<not> P x))"
    proof
      assume "\<exists>pre post. ps = pre @ c # post \<and> P c \<and> (\<forall>x\<in>set pre. \<not> P x)"
      then obtain pre post where "ps = pre @ c # post" "P c" "\<forall>x\<in>set pre. \<not> P x"
        by auto
      with False have "p # ps = (p # pre) @ c # post \<and> P c \<and> (\<forall>x\<in>set (p # pre). \<not> P x)"
        by simp
      then show "\<exists>pre post. p # ps = pre @ c # post \<and> P c \<and> (\<forall>x\<in>set pre. \<not> P x)"
        by blast
    next
      assume "\<exists>pre post. p # ps = pre @ c # post \<and> P c \<and> (\<forall>x\<in>set pre. \<not> P x)"
      then obtain pre post where h: "p # ps = pre @ c # post" "P c" "\<forall>x\<in>set pre. \<not> P x"
        by auto
      with False obtain pre' where "pre = p # pre'" by (cases pre) auto
      with h have "ps = pre' @ c # post \<and> P c \<and> (\<forall>x\<in>set pre'. \<not> P x)" by simp
      then show "\<exists>pre post. ps = pre @ c # post \<and> P c \<and> (\<forall>x\<in>set pre. \<not> P x)"
        by blast
    qed
    with False Cons show ?thesis by simp
  qed
qed

lemma find_None_ball: "(find P xs = None) = (\<forall>x\<in>set xs. \<not> P x)"
  by (induction xs) auto

lemma choose_compiler_find: "choose_compiler wh preferred = find (\<lambda>c. truthy (wh c)) preferred"
  by (induction preferred) auto

lemma first_available_find:
  "first_available preferred av = find (\<lambda>c. JString c \<in> set av) preferred"
  by (induction preferred) auto

text \<open>
  Claim C9. \<^verbatim>\<open>choose_compiler\<close> returns a name exactly when the preference list splits
  into entries that \<^verbatim>\<open>shutil.which\<close> does not find, then this name, which it finds, then
  the rest; and it returns \<^verbatim>\<open>None\<close> exactly when no entry is found.
\<close>

theorem choose_compiler_first:
  "(choose_compiler wh preferred = Some c) =
     (\<exists>pre post. preferred = pre @ c # post \<and> truthy (wh c) \<and> (\<forall>x\<in>set pre. \<not> truthy (wh x)))
   \<and> (choose_compiler wh preferred = None) = (\<forall>x\<in>set preferred. \<not> truthy (wh x))"
  by (simp add: choose_compiler_find find_first_split find_None_ball)

theorem choose_compiler_first_witness:
  "choose_compiler (\<lambda>n. if n = ''gcc'' \<or> n = ''clang'' then Some (''/usr/bin/'' @ n) else None)
     PREFERRED_COMPILERS_C = Some ''gcc''"
proof -
  let ?wh = "\<lambda>n. if n = ''gcc'' \<or> n = ''clang'' then Some (''/usr/bin/'' @ n) else None"
  have "PREFERRED_COMPILERS_C = [''cc''] @ ''gcc'' # [''clang'', ''cl''] \<and> truthy (?wh ''gcc'')
      \<and> (\<forall>x\<in>set [''cc'']. \<not> truthy (?wh x))"
    by (simp add: PREFERRED_COMPILERS_C_def truthy_def)
  then have "\<exists>pre post. PREFERRED_COMPILERS_C = pre @ ''gcc'' # post \<and> truthy (?wh ''gcc'')
      \<and> (\<forall>x\<in>set pre. \<not> truthy (?wh x))"
    by blast
  with choose_compiler_first [of ?wh PREFERRED_COMPILERS_C "''gcc''"] show ?thesis
    by blast
qed

lemma set_of_names_well_formed:
  "well_formed_generators gs \<Longrightarrow>
     \<exists>names. set_of_names gs = Inr names \<and> Some ` set names = generator_name ` set gs"
proof (induction gs)
  case Nil
  then show ?case by simp
next
  case (Cons g gs)
  then obtain ps where g: "g = JObject ps" and h: "hashable (dict_get ps ''name'' JNull)"
    by (cases g) (auto simp: well_formed_generators_def)
  from Cons obtain names where n: "set_of_names gs = Inr names"
      "Some ` set names = generator_name ` set gs"
    by (auto simp: well_formed_generators_def)
  then show ?case
    using h by (simp add: g get_attr_def)
qed

text \<open>
  What the generator query does guarantee. \<^verbatim>\<open>choose_generator\<close> returns \<^verbatim>\<open>None\<close>, raising
  nothing, when cmake is not on the path, when it exits with a non-zero code, and when
  its output is text that is not JSON. When the output is an object whose generator
  list is well formed, it raises nothing and returns the first entry of the preference
  list that is reported, and \<^verbatim>\<open>None\<close> exactly when no entry is reported.
\<close>

theorem choose_generator_first:
  "choose_generator FileNotFound preferred = Inr None
   \<and> choose_generator (NonZeroExit rc) preferred = Inr None
   \<and> choose_generator JSONDecodeError preferred = Inr None
   \<and> (dict_get kvs ''generators'' (JArray []) = JArray gs \<and> well_formed_generators gs \<longrightarrow>
        (\<exists>r. choose_generator (Decoded (JObject kvs)) preferred = Inr r
           \<and> (r = Some c) =
               (\<exists>pre post. preferred = pre @ c # post \<and> reported gs c
                  \<and> (\<forall>x\<in>set pre. \<not> reported gs x))
           \<and> (r = None) = (\<forall>x\<in>set preferred. \<not> reported gs x)))"
proof -
  have none: "first_available preferred [] = None"
    by (induction preferred) auto
  have absent: "choose_generator FileNotFound preferred = Inr None"
    "choose_generator (NonZeroExit rc) preferred = Inr None"
    "choose_generator JSONDecodeError preferred = Inr None"
    by (simp_all add: choose_generator_def read_capabilities_def get_attr_def dict_get_def
          py_iter_def none)
  have ok: "\<exists>r. choose_generator (Decoded (JObject kvs)) preferred = Inr r
           \<and> (r = Some c) =
               (\<exists>pre post. preferred = pre @ c # post \<and> reported gs c
                  \<and> (\<forall>x\<in>set pre. \<not> reported gs x))
           \<and> (r = None) = (\<forall>x\<in>set preferred. \<not> reported gs x)"
    if d: "dict_get kvs ''generators'' (JArray []) = JArray gs" and wf: "well_formed_generators gs"
  proof -
    from wf obtain names where n: "set_of_names gs = Inr names"
      "Some ` set names = generator_name ` set gs"
      using set_of_names_well_formed by blast
    have rep: "reported gs x = (JString x \<in> set names)" for x
      unfolding reported_def n(2) [symmetric] by auto
    have "choose_generator (Decoded (JObject kvs)) preferred = Inr (first_available preferred names)"
      by (simp add: choose_generator_def read_capabilities_def get_attr_def d py_iter_def n(1))
    then show ?thesis
      by (simp add: first_available_find find_first_split find_None_ball rep)
  qed
  from absent ok show ?thesis by blast
qed

theorem choose_generator_first_witness:
  "choose_generator
     (Decoded (JObject [(''version'', JString ''3.28''),
        (''generators'', JArray [JObject [(''name'', JString ''Unix Makefiles'')],
                                 JObject [(''name'', JString ''Ninja'')]])]))
     PREFERRED_GENERATORS = Inr (Some ''Ninja'')"
proof -
  let ?gs = "[JObject [(''name'', JString ''Unix Makefiles'')], JObject [(''name'', JString ''Ninja'')]]"
  let ?kvs = "[(''version'', JString ''3.28''), (''generators'', JArray ?gs)]"
  have d: "dict_get ?kvs ''generators'' (JArray []) = JArray ?gs \<and> well_formed_generators ?gs"
    by (simp add: dict_get_def well_formed_generators_def hashable_def)
  have "PREFERRED_GENERATORS = [''Ninja Multi-Config''] @ ''Ninja'' # [''Unix Makefiles'', ''MinGW Makefiles'',
      ''Visual Studio 17 2022''] \<and> reported ?gs ''Ninja''
      \<and> (\<forall>x\<in>set [''Ninja Multi-Config'']. \<not> reported ?gs x)"
    by (simp add: PREFERRED_GENERATORS_def reported_def dict_get_def)
  then have "\<exists>pre post. PREFERRED_GENERATORS = pre @ ''Ninja'' # post \<and> reported ?gs ''Ninja''
      \<and> (\<forall>x\<in>set pre. \<not> reported ?gs x)"
    by blast
  with d choose_generator_first [of PREFERRED_GENERATORS 0 ?kvs ?gs "''Ninja''"] show ?thesis
    by blast
qed

text \<open>
  Claim C8. The claim promises \<^verbatim>\<open>None\<close>, and no exception, whenever the output of cmake is
  malformed. The \<^verbatim>\<open>except\<close> clause of \<^verbatim>\<open>read_capabilities\<close> catches the three exceptions
  of the theorem above and misses the other malformed outputs. When cmake prints
  \<^verbatim>\<open>[]\<close>, the call \<^verbatim>\<open>data.get\<close> raises \<^verbatim>\<open>AttributeError\<close>; when it prints
  \<^verbatim>\<open>{"generators": null}\<close>, the loop raises \<^verbatim>\<open>TypeError\<close>; when a generator is a string
  and not an object, \<^verbatim>\<open>g.get\<close> raises \<^verbatim>\<open>AttributeError\<close>; when a name is a list, the set
  raises \<^verbatim>\<open>TypeError\<close>; and when the output is not text in the expected encoding,
  \<^verbatim>\<open>subprocess.run\<close> raises \<^verbatim>\<open>UnicodeDecodeError\<close>.
\<close>

theorem choose_generator_raises:
  "choose_generator (Decoded (JArray [])) PREFERRED_GENERATORS = Inl AttributeError
   \<and> choose_generator (Decoded (JObject [(''generators'', JNull)])) PREFERRED_GENERATORS
       = Inl TypeError
   \<and> choose_generator (Decoded (JObject [(''generators'', JArray [JString ''Ninja''])]))
         PREFERRED_GENERATORS = Inl AttributeError
   \<and> choose_generator
         (Decoded (JObject [(''generators'', JArray [JObject [(''name'', JArray [])]])]))
         PREFERRED_GENERATORS = Inl TypeError
   \<and> choose_generator UndecodableOutput PREFERRED_GENERATORS = Inl UnicodeDecodeError"
  by (simp add: choose_generator_def read_capabilities_def get_attr_def dict_get_def
        py_iter_def hashable_def)

text \<open>A cmake that is found but cannot be started is not tolerated either.\<close>

lemma choose_generator_not_executable:
  "choose_generator NotExecutable preferred = Inl OSError"
  by (simp add: choose_generator_def read_capabilities_def)

section \<open>Single and multiple configurations\<close>

text \<open>
  Claim C5. A generator counts as multi-configuration exactly when its name in lower
  case contains \<^verbatim>\<open>multi-config\<close> or \<^verbatim>\<open>visual studio\<close>. For such a generator the configure
  command carries no build-type flag and the build command carries \<^verbatim>\<open>--config\<close> and the
  configuration; for every other generator the configure command carries
  \<^verbatim>\<open>-DCMAKE_BUILD_TYPE=\<close> with the configuration and the build command carries none.
  These are the commands that \<^verbatim>\<open>configure_build\<close> and \<^verbatim>\<open>build_target\<close> run.
\<close>

theorem multi_config_commands:
  "is_multi_config gen =
     (\<exists>p s. lower gen = p @ ''multi-config'' @ s \<or> lower gen = p @ ''visual studio'' @ s)
   \<and> configure_cmd gen cfg extra =
       [''cmake'', ''-S'', ''.'', ''-B'', ''build'', ''-G'', gen, ''-Wno-dev'']
         @ (if is_multi_config gen then [] else [''-DCMAKE_BUILD_TYPE='' @ cfg]) @ extra
   \<and> build_cmd target gen cfg extra =
       [''cmake'', ''--build'', ''build'', ''--target'', target]
         @ (if is_multi_config gen then [''--config'', cfg] else []) @ extra
   \<and> commands (snd (configure_build w gen cfg extra s)) =
       commands s @ [configure_cmd gen cfg extra]
   \<and> commands (snd (build_target w target gen cfg extra s)) =
       commands s @ [build_cmd target gen cfg extra]"
proof (intro conjI)
  show "is_multi_config gen =
     (\<exists>p s. lower gen = p @ ''multi-config'' @ s \<or> lower gen = p @ ''visual studio'' @ s)"
    unfolding is_multi_config_def Let_def str_in_iff by blast
  show "configure_cmd gen cfg extra =
       [''cmake'', ''-S'', ''.'', ''-B'', ''build'', ''-G'', gen, ''-Wno-dev'']
         @ (if is_multi_config gen then [] else [''-DCMAKE_BUILD_TYPE='' @ cfg]) @ extra"
    by (simp add: configure_cmd_def Let_def)
  show "build_cmd target gen cfg extra =
       [''cmake'', ''--build'', ''build'', ''--target'', target]
         @ (if is_multi_config gen then [''--config'', cfg] else []) @ extra"
    by (simp add: build_cmd_def Let_def)
  have run: "commands (snd (subprocess_run w cmd s')) = commands s' @ [cmd]" for cmd s'
    by (simp add: subprocess_run_def Let_def split: process_result.splits)
  show "commands (snd (configure_build w gen cfg extra s)) =
       commands s @ [configure_cmd gen cfg extra]"
    by (simp add: configure_build_def run)
  show "commands (snd (build_target w target gen cfg extra s)) =
       commands s @ [build_cmd target gen cfg extra]"
    by (simp add: build_target_def run)
qed

theorem multi_config_commands_witness:
  "is_multi_config ''Ninja Multi-Config''
   \<and> configure_cmd ''Ninja Multi-Config'' ''Release'' [] =
       [''cmake'', ''-S'', ''.'', ''-B'', ''build'', ''-G'', ''Ninja Multi-Config'', ''-Wno-dev'']
   \<and> build_cmd ''src_foo_c'' ''Ninja Multi-Config'' ''Release'' [] =
       [''cmake'', ''--build'', ''build'', ''--target'', ''src_foo_c'', ''--config'', ''Release'']
   \<and> \<not> is_multi_config ''Ninja''
   \<and> configure_cmd ''Ninja'' ''Release'' [] =
       [''cmake'', ''-S'', ''.'', ''-B'', ''build'', ''-G'', ''Ninja'', ''-Wno-dev'',
        ''-DCMAKE_BUILD_TYPE=Release'']
   \<and> build_cmd ''src_foo_c'' ''Ninja'' ''Release'' [] =
       [''cmake'', ''--build'', ''build'', ''--target'', ''src_foo_c'']"
proof -
  have mc: "is_multi_config ''Ninja Multi-Config''" "\<not> is_multi_config ''Ninja''"
    by (simp_all add: is_multi_config_def lower_def lower_char_def)
  with multi_config_commands [of "''Ninja Multi-Config''" "''Release''" "[]" "''src_foo_c''"]
    multi_config_commands [of "''Ninja''" "''Release''" "[]" "''src_foo_c''"]
  show ?thesis
    by simp
qed

section \<open>The steps of a run\<close>

lemma stdout_cleanup: "stdout (cleanup w d s) = stdout s"
  by (simp add: cleanup_def split: option.splits)

lemma commands_cleanup: "commands (cleanup w d s) = commands s"
  by (simp add: cleanup_def split: option.splits)

lemma subprocess_run_eq:
  "subprocess_run w cmd s =
     (case run_process w cmd of
        Exited rc \<Rightarrow> if rc = 0 then Inr () else Inl (CalledProcessError rc)
      | NotStarted \<Rightarrow> Inl (Raised OSError),
      s\<lparr>commands := commands s @ [cmd]\<rparr>)"
  by (simp add: subprocess_run_def Let_def split: process_result.splits)

lemma direct_compile_eq:
  "direct_compile w file_path compiler isc s =
     (let temp_dir = mkdtemp w (if isc then ''c-run-'' else ''cpp-run-'');
          output = joinpath temp_dir (if os_nt w then ''a.exe'' else ''a.out'');
          cmd = compile_cmd file_path compiler isc output
      in (case run_process w cmd of
            Exited rc \<Rightarrow> if rc = 0 then Inr output else Inl (CalledProcessError rc)
          | NotStarted \<Rightarrow> Inl (Raised OSError),
          s\<lparr>temp_dirs := temp_dirs s @ [temp_dir],
            log := log s @ [''Compiling with '' @ compiler @ [CHR 0x0A]],
            commands := commands s @ [cmd]\<rparr>))"
  by (simp add: direct_compile_def subprocess_run_eq Let_def split: process_result.splits)

lemma fallback_compile_Inr:
  assumes "fallback_compile w a s = (Inr (binary, cleanup_dir), s1)"
  shows "stdout s1 = stdout s"
    and "binary = joinpath (mkdtemp w (if is_c a then ''c-run-'' else ''cpp-run-''))
                    (if os_nt w then ''a.exe'' else ''a.out'')"
    and "cleanup_dir = Some (parent binary)"
    and "temp_dirs s1 = temp_dirs s @ [mkdtemp w (if is_c a then ''c-run-'' else ''cpp-run-'')]"
  using assms
  by (auto simp: fallback_compile_def direct_compile_eq except_CalledProcessError_def
        fail_def fail_with_log_def Let_def
      split: option.splits if_splits process_result.splits)

lemma project_build_Inr:
  assumes "project_build w a s = (Inr (binary, cleanup_dir), s1)"
  shows "stdout s1 = stdout s" and "cleanup_dir = None" and "temp_dirs s1 = temp_dirs s"
  using assms
  by (auto simp: project_build_def configure_build_def build_target_def subprocess_run_eq
        except_CalledProcessError_def fail_def fail_with_log_def Let_def
      split: option.splits if_splits process_result.splits sum.splits)

lemma prepare_Inr:
  assumes "prepare w a s = (Inr (binary, cleanup_dir), s1)"
  shows "stdout s1 = stdout s
     \<or> stdout s1 = stdout s @ [Line notice_no_cmake]
     \<or> stdout s1 = stdout s @ [Line notice_outside]"
proof -
  consider (a) "which w ''cmake'' = None"
    | (b) "which w ''cmake'' \<noteq> None" "\<not> in_project w a"
    | (c) "which w ''cmake'' \<noteq> None" "in_project w a"
    by blast
  then show ?thesis
  proof cases
    case a
    with assms fallback_compile_Inr(1) show ?thesis
      by (fastforce simp: prepare_def print_def)
  next
    case b
    with assms fallback_compile_Inr(1) show ?thesis
      by (fastforce simp: prepare_def print_def)
  next
    case c
    with assms project_build_Inr(1) show ?thesis
      by (fastforce simp: prepare_def)
  qed
qed

lemma prepare_without_cmake:
  "fst (prepare world_without_cmake example_arguments initial_state) =
     Inr (Path ''/'' [''tmp'', ''c-run-k3x9'', ''a.out''], Some (Path ''/'' [''tmp'', ''c-run-k3x9'']))"
  by code_simp

section \<open>A program that fails\<close>

lemma execute_nonzero:
  assumes "run_process w (as_posix binary # exec_args) = Exited rc" "rc \<noteq> 0"
  shows "fst (execute w binary exec_args cleanup_dir s) = Inl (SystemExit rc)"
    and "stdout (snd (execute w binary exec_args cleanup_dir s)) =
      stdout s @ [Line (''--- Executing: '' @ as_posix binary)]
        @ (if exec_args \<noteq> [] then [Line (''--- Arguments: '' @ join '' '' exec_args)] else [])
        @ [Line (''-------------------------------'' @ [CHR 0x0A]),
           Line (executable_failed_message rc)]"
  using assms
  by (simp_all add: execute_def subprocess_run_eq except_CalledProcessError_def fail_def
        print_def stdout_cleanup Let_def)

lemma messages_distinct:
  "executable_failed_message rc \<noteq> cmake_failed_message c"
  "executable_failed_message rc \<noteq> compilation_failed_message c"
  by (simp_all add: executable_failed_message_def cmake_failed_message_def
        compilation_failed_message_def)

text \<open>
  Claim C7. When the build or the direct compilation has produced a binary and the run
  of the binary ends with a return code other than 0, the tool calls \<^verbatim>\<open>sys.exit\<close> with
  that return code, so its exit status is the return code modulo 256: the same code
  when the program exited with a status from 1 to 255, and 256 minus the signal number
  when a signal killed it. The last line printed is the message for a failed
  executable, which differs from both messages for a failed build; and neither the log
  text nor the line that opens a log dump is printed.
\<close>

theorem child_exit_code_mirrored:
  assumes "\<not> arg_list_generators a" "\<not> arg_print_binary a"
    and "prepare w a initial_state = (Inr (binary, cleanup_dir), s1)"
    and "run_process w (as_posix binary # arg_args a) = Exited rc" "rc \<noteq> 0"
  shows "fst (main w a) = Inl (SystemExit rc)
     \<and> exit_code (fst (main w a)) = rc mod 256
     \<and> (0 < rc \<and> rc < 256 \<longrightarrow> exit_code (fst (main w a)) = rc)
     \<and> last (stdout (snd (main w a))) = Line (executable_failed_message rc)
     \<and> executable_failed_message rc \<noteq> cmake_failed_message c
     \<and> executable_failed_message rc \<noteq> compilation_failed_message c
     \<and> LogText \<notin> set (stdout (snd (main w a)))
     \<and> Line ''---- build log (build_output.log) ----'' \<notin> set (stdout (snd (main w a)))"
proof -
  have m: "main w a = execute w binary (arg_args a) cleanup_dir s1"
    using assms(1-3) by (simp add: main_def)
  have out: "stdout (snd (main w a)) =
      stdout s1 @ [Line (''--- Executing: '' @ as_posix binary)]
        @ (if arg_args a \<noteq> [] then [Line (''--- Arguments: '' @ join '' '' (arg_args a))] else [])
        @ [Line (''-------------------------------'' @ [CHR 0x0A]),
           Line (executable_failed_message rc)]"
    unfolding m using assms(4,5) by (rule execute_nonzero(2))
  have s1: "LogText \<notin> set (stdout s1)"
    "Line ''---- build log (build_output.log) ----'' \<notin> set (stdout s1)"
    using prepare_Inr [OF assms(3)]
    by (auto simp: initial_state_def notice_no_cmake_def notice_outside_def)
  have res: "fst (main w a) = Inl (SystemExit rc)"
    unfolding m using execute_nonzero(1) [OF assms(4,5)] by simp
  then have code: "exit_code (fst (main w a)) = rc mod 256"
    by (simp add: exit_code_def)
  then have same: "0 < rc \<and> rc < 256 \<longrightarrow> exit_code (fst (main w a)) = rc"
    by simp
  note res code same
  moreover have "last (stdout (snd (main w a))) = Line (executable_failed_message rc)"
    unfolding out by simp
  moreover have "LogText \<notin> set (stdout (snd (main w a)))"
    unfolding out using s1(1) by simp
  moreover have "Line ''---- build log (build_output.log) ----'' \<notin> set (stdout (snd (main w a)))"
    unfolding out using s1(2) by (simp add: executable_failed_message_def)
  ultimately show ?thesis
    using messages_distinct by blast
qed

text \<open>
  The fourth scenario of the specification: no cmake, the compiled program exits with
  code 7, no arguments are forwarded.
\<close>

theorem child_exit_code_mirrored_witness:
  "fst (main world_without_cmake example_arguments) = Inl (SystemExit 7)
   \<and> exit_code (fst (main world_without_cmake example_arguments)) = 7
   \<and> last (stdout (snd (main world_without_cmake example_arguments))) =
       Line ''Executable returned non-zero exit code 7''
   \<and> LogText \<notin> set (stdout (snd (main world_without_cmake example_arguments)))
   \<and> Line ''---- build log (build_output.log) ----''
       \<notin> set (stdout (snd (main world_without_cmake example_arguments)))"
proof -
  have p: "prepare world_without_cmake example_arguments initial_state =
      (Inr (Path ''/'' [''tmp'', ''c-run-k3x9'', ''a.out''], Some (Path ''/'' [''tmp'', ''c-run-k3x9''])),
       snd (prepare world_without_cmake example_arguments initial_state))"
    using prepare_without_cmake by (metis prod.collapse)
  have r: "run_process world_without_cmake
      (as_posix (Path ''/'' [''tmp'', ''c-run-k3x9'', ''a.out'']) # arg_args example_arguments) = Exited 7"
    by (simp add: world_without_cmake_def as_posix_def)
  have m: "executable_failed_message 7 = ''Executable returned non-zero exit code 7''"
    by (simp add: executable_failed_message_def str_int_def digits.simps)
  have "\<not> arg_list_generators example_arguments" "\<not> arg_print_binary example_arguments"
    by (simp_all add: example_arguments_def)
  from child_exit_code_mirrored [OF this p r, of 0] show ?thesis
    by (simp add: m exit_code_def)
qed

section \<open>The temporary directory\<close>

lemma parent_joinpath_output:
  "parent (joinpath p ''a.out'') = p" "parent (joinpath p ''a.exe'') = p"
  by (simp_all add: parent_def joinpath_def parse_path_def parse_root_def)

lemma temp_dirs_cleanup:
  "temp_dirs s = [d] \<Longrightarrow> temp_dirs (cleanup w (Some d) s) = (if rmtree_ok w d then [] else [d])"
  by (simp add: cleanup_def)

lemma execute_result:
  "fst (execute w binary exec_args cleanup_dir s) =
     (case run_process w (as_posix binary # exec_args) of
        Exited rc \<Rightarrow> if rc = 0 then Inr () else Inl (SystemExit rc)
      | NotStarted \<Rightarrow> Inl (Raised OSError))"
  by (simp add: execute_def subprocess_run_eq except_CalledProcessError_def fail_def Let_def
      split: process_result.splits)

lemma execute_temp_dirs:
  "temp_dirs s = [d] \<Longrightarrow>
     temp_dirs (snd (execute w binary exec_args (Some d) s)) = (if rmtree_ok w d then [] else [d])"
  by (simp add: execute_def subprocess_run_eq except_CalledProcessError_def fail_def print_def
        Let_def cleanup_def
      split: process_result.splits)

text \<open>
  What the cleanup does guarantee. When the direct compilation has succeeded, the
  directory to clean up is the temporary directory that was created, and it is the only
  one; after the run it is gone when \<^verbatim>\<open>shutil.rmtree\<close> succeeds and is left when it
  raises \<^verbatim>\<open>OSError\<close>; and the result of \<^verbatim>\<open>main\<close> is the result of the run alone, whatever
  the removal does.
\<close>

theorem temp_dir_removed_after_run:
  assumes "\<not> arg_list_generators a" "\<not> arg_print_binary a"
    and "prepare w a initial_state = (Inr (binary, Some d), s1)"
  shows "d = mkdtemp w (if is_c a then ''c-run-'' else ''cpp-run-'')
     \<and> temp_dirs s1 = [d]
     \<and> temp_dirs (snd (main w a)) = (if rmtree_ok w d then [] else [d])
     \<and> fst (main w a) =
         (case run_process w (as_posix binary # arg_args a) of
            Exited rc \<Rightarrow> if rc = 0 then Inr () else Inl (SystemExit rc)
          | NotStarted \<Rightarrow> Inl (Raised OSError))"
proof -
  have m: "main w a = execute w binary (arg_args a) (Some d) s1"
    using assms by (simp add: main_def)
  obtain s0 where fc: "fallback_compile w a s0 = (Inr (binary, Some d), s1)"
    and s0: "temp_dirs s0 = []"
    using assms(3) project_build_Inr(2) [of w a initial_state binary "Some d" s1]
    by (auto simp: prepare_def print_def initial_state_def split: if_splits)
  have d: "d = mkdtemp w (if is_c a then ''c-run-'' else ''cpp-run-'')"
    using fallback_compile_Inr(2,3) [OF fc] by (auto simp: parent_joinpath_output)
  have t: "temp_dirs s1 = [d]"
    using fallback_compile_Inr(4) [OF fc] s0 d by simp
  show ?thesis
    unfolding m using d t by (simp add: execute_result execute_temp_dirs)
qed

theorem temp_dir_removed_after_run_witness:
  "temp_dirs (snd (main world_without_cmake example_arguments)) = []
   \<and> fst (main world_without_cmake example_arguments) = Inl (SystemExit 7)"
proof -
  have p: "prepare world_without_cmake example_arguments initial_state =
      (Inr (Path ''/'' [''tmp'', ''c-run-k3x9'', ''a.out''], Some (Path ''/'' [''tmp'', ''c-run-k3x9''])),
       snd (prepare world_without_cmake example_arguments initial_state))"
    using prepare_without_cmake by (metis prod.collapse)
  have r: "run_process world_without_cmake
      (as_posix (Path ''/'' [''tmp'', ''c-run-k3x9'', ''a.out'']) # arg_args example_arguments) = Exited 7"
    by (simp add: world_without_cmake_def as_posix_def)
  have ok: "rmtree_ok world_without_cmake (Path ''/'' [''tmp'', ''c-run-k3x9''])"
    by (simp add: world_without_cmake_def)
  have "\<not> arg_list_generators example_arguments" "\<not> arg_print_binary example_arguments"
    by (simp_all add: example_arguments_def)
  from temp_dir_removed_after_run [OF this p] show ?thesis
    by (simp add: r ok)
qed

text \<open>
  Claim C4. The claim includes the exit after a failed compilation. There the code
  does not remove the directory: \<^verbatim>\<open>direct_compile\<close> raises before \<^verbatim>\<open>cleanup_dir\<close> is
  assigned, and the \<^verbatim>\<open>finally\<close> block that removes it belongs to the later run. On the
  machine whose compiler exits with code 1 the tool exits with code 1 and the
  directory is still on disk, although removing it would have succeeded.
\<close>

theorem temp_dir_left_after_failed_compilation:
  "which world_failing_compiler ''cmake'' = None
   \<and> fst (main world_failing_compiler example_arguments) = Inl (SystemExit 1)
   \<and> commands (snd (main world_failing_compiler example_arguments)) =
       [[''cc'', ''src/foo.c'', ''-std=c17'', ''-O0'', ''-g'', ''-o'', ''/tmp/c-run-k3x9/a.out'']]
   \<and> rmtree_ok world_failing_compiler (Path ''/'' [''tmp'', ''c-run-k3x9''])
   \<and> temp_dirs (snd (main world_failing_compiler example_arguments)) =
       [Path ''/'' [''tmp'', ''c-run-k3x9'']]"
  by code_simp

section \<open>Locating the binary\<close>

lemma split_on_absent: "c \<notin> set n \<Longrightarrow> split_on c n = [n]"
  by (induction n) auto

lemma parse_path_plain: "plain_name n \<Longrightarrow> parse_path n = Path [] [n]"
  by (cases n) (auto simp: plain_name_def parse_path_def parse_root_def split_on_absent)

lemma plain_name_append: "plain_name n \<Longrightarrow> plain_name (n @ ''.exe'')"
  by (cases n) (auto simp: plain_name_def)

lemma exe_path_plain:
  assumes "is_multi_config gen" "plain_name (DEFAULT_CONFIG w)" "plain_name target"
  shows "as_posix (exe_path w target gen) =
     ''build/'' @ DEFAULT_CONFIG w @ ''/'' @ target @ (if os_nt w then ''.exe'' else [])"
proof -
  have b: "parse_path ''build'' = Path [] [''build'']"
    by (simp add: parse_path_def parse_root_def)
  have t: "parse_path (target @ (if os_nt w then ''.exe'' else [])) =
      Path [] [target @ (if os_nt w then ''.exe'' else [])]"
    using assms(3) by (simp add: parse_path_plain plain_name_append)
  show ?thesis
    using assms(1) by (simp add: exe_path_def Let_def joinpath_def b t parse_path_plain [OF assms(2)] as_posix_def)
qed

text \<open>
  Claim C10. With a multi-configuration generator and a \<^verbatim>\<open>--config\<close> value, the build
  command carries that value, while the binary is looked for under the default
  configuration, taken from the environment variable or \<^verbatim>\<open>Debug\<close>: \<^verbatim>\<open>exe_path\<close> never
  sees the \<^verbatim>\<open>--config\<close> value. When the default configuration and the target are plain
  names, the path is \<^verbatim>\<open>build/<default>/<target>\<close>.
\<close>

theorem binary_path_uses_default_config:
  assumes "is_multi_config gen"
    and "select_generator w a = Inr (Some gen)" "gen \<noteq> []"
    and "normalize_target_in_project (resolve w) (file_abs w a) (project_root w) = Inr target"
    and "arg_config a = Some c" "c \<noteq> []"
    and "run_process w (configure_cmd gen c (arg_cmake_arg a)) = Exited 0"
    and "run_process w (build_cmd target gen c (arg_build_arg a)) = Exited 0"
  shows "commands (snd (project_build w a s)) =
       commands s @ [configure_cmd gen c (arg_cmake_arg a),
                     [''cmake'', ''--build'', ''build'', ''--target'', target, ''--config'', c]
                       @ arg_build_arg a]
     \<and> fst (project_build w a s) =
         (if exists_after_build w (exe_path w target gen)
          then Inr (exe_path w target gen, None) else Inl (SystemExit 1))
     \<and> exe_path w target gen =
         joinpath (joinpath (parse_path ''build'') (DEFAULT_CONFIG w))
           (target @ (if os_nt w then ''.exe'' else []))
     \<and> (plain_name (DEFAULT_CONFIG w) \<and> plain_name target \<longrightarrow>
           as_posix (exe_path w target gen) =
             ''build/'' @ DEFAULT_CONFIG w @ ''/'' @ target @ (if os_nt w then ''.exe'' else []))"
proof -
  have bc: "build_config w a = c"
    using assms(5,6) by (simp add: build_config_def)
  have cmd: "build_cmd target gen c (arg_build_arg a) =
      [''cmake'', ''--build'', ''build'', ''--target'', target, ''--config'', c] @ arg_build_arg a"
    using assms(1) by (simp add: build_cmd_def Let_def)
  have pb: "project_build w a s =
      (let s2 = s\<lparr>log := log s @ [''Configuring with generator: '' @ gen @ [CHR 0x0A]] @
                         [''Building target: '' @ target @ [CHR 0x0A]],
                    commands := commands s @ [configure_cmd gen c (arg_cmake_arg a),
                                  build_cmd target gen c (arg_build_arg a)]\<rparr>
       in if \<not> exists_after_build w (exe_path w target gen)
          then fail (''Built binary not found at '' @ as_posix (exe_path w target gen)) 1 s2
          else (Inr (exe_path w target gen, None), s2))"
    using assms(2,3,4,7,8)
    by (simp add: project_build_def bc configure_build_def build_target_def subprocess_run_eq
          except_CalledProcessError_def Let_def)
  show ?thesis
  proof (intro conjI)
    show "commands (snd (project_build w a s)) =
       commands s @ [configure_cmd gen c (arg_cmake_arg a),
                     [''cmake'', ''--build'', ''build'', ''--target'', target, ''--config'', c]
                       @ arg_build_arg a]"
      unfolding pb cmd [symmetric] by (simp add: fail_def print_def Let_def)
    show "fst (project_build w a s) =
         (if exists_after_build w (exe_path w target gen)
          then Inr (exe_path w target gen, None) else Inl (SystemExit 1))"
      unfolding pb by (simp add: fail_def Let_def)
    show "exe_path w target gen =
         joinpath (joinpath (parse_path ''build'') (DEFAULT_CONFIG w))
           (target @ (if os_nt w then ''.exe'' else []))"
      using assms(1) by (simp add: exe_path_def Let_def)
    show "plain_name (DEFAULT_CONFIG w) \<and> plain_name target \<longrightarrow>
           as_posix (exe_path w target gen) =
             ''build/'' @ DEFAULT_CONFIG w @ ''/'' @ target @ (if os_nt w then ''.exe'' else [])"
      using exe_path_plain [OF assms(1), of w target] by blast
  qed
qed

text \<open>Built with \<^verbatim>\<open>--config Release\<close>, looked for in \<^verbatim>\<open>build/Debug\<close>.\<close>

theorem binary_path_uses_default_config_witness:
  "commands (snd (project_build world_with_cmake release_arguments initial_state)) =
     [[''cmake'', ''-S'', ''.'', ''-B'', ''build'', ''-G'', ''Ninja Multi-Config'', ''-Wno-dev''],
      [''cmake'', ''--build'', ''build'', ''--target'', ''src_foo_c'', ''--config'', ''Release'']]
   \<and> fst (project_build world_with_cmake release_arguments initial_state) =
       Inr (Path [] [''build'', ''Debug'', ''src_foo_c''], None)
   \<and> as_posix (exe_path world_with_cmake ''src_foo_c'' ''Ninja Multi-Config'') =
       ''build/Debug/src_foo_c''"
proof -
  have mc: "is_multi_config ''Ninja Multi-Config''"
    by (simp add: is_multi_config_def lower_def lower_char_def)
  have sel: "select_generator world_with_cmake release_arguments = Inr (Some ''Ninja Multi-Config'')"
    by code_simp
  have t: "normalize_target_in_project (resolve world_with_cmake)
      (file_abs world_with_cmake release_arguments) (project_root world_with_cmake) = Inr ''src_foo_c''"
    by code_simp
  have c: "arg_config release_arguments = Some ''Release''"
    by (simp add: release_arguments_def)
  have r: "run_process world_with_cmake cmd = Exited 0" for cmd
    by (simp add: world_with_cmake_def)
  have d: "DEFAULT_CONFIG world_with_cmake = ''Debug''" "\<not> os_nt world_with_cmake"
    "exists_after_build world_with_cmake p" for p
    by (simp_all add: DEFAULT_CONFIG_def world_with_cmake_def)
  have pl: "plain_name ''Debug''" "plain_name ''src_foo_c''"
    by (simp_all add: plain_name_def)
  have e: "exe_path world_with_cmake ''src_foo_c'' ''Ninja Multi-Config'' =
      Path [] [''build'', ''Debug'', ''src_foo_c'']"
    by code_simp
  have extra: "arg_cmake_arg release_arguments = []" "arg_build_arg release_arguments = []"
    by (simp_all add: release_arguments_def example_arguments_def)
  have cc: "configure_cmd ''Ninja Multi-Config'' ''Release'' [] =
      [''cmake'', ''-S'', ''.'', ''-B'', ''build'', ''-G'', ''Ninja Multi-Config'', ''-Wno-dev'']"
    using mc by (simp add: configure_cmd_def)
  have th: "commands (snd (project_build world_with_cmake release_arguments initial_state)) =
       commands initial_state @ [configure_cmd ''Ninja Multi-Config'' ''Release'' (arg_cmake_arg release_arguments),
                     [''cmake'', ''--build'', ''build'', ''--target'', ''src_foo_c'', ''--config'', ''Release'']
                       @ arg_build_arg release_arguments]
     \<and> fst (project_build world_with_cmake release_arguments initial_state) =
         (if exists_after_build world_with_cmake (exe_path world_with_cmake ''src_foo_c'' ''Ninja Multi-Config'')
          then Inr (exe_path world_with_cmake ''src_foo_c'' ''Ninja Multi-Config'', None) else Inl (SystemExit 1))
     \<and> exe_path world_with_cmake ''src_foo_c'' ''Ninja Multi-Config'' =
         joinpath (joinpath (parse_path ''build'') (DEFAULT_CONFIG world_with_cmake))
           (''src_foo_c'' @ (if os_nt world_with_cmake then ''.exe'' else []))
     \<and> (plain_name (DEFAULT_CONFIG world_with_cmake) \<and> plain_name ''src_foo_c'' \<longrightarrow>
           as_posix (exe_path world_with_cmake ''src_foo_c'' ''Ninja Multi-Config'') =
             ''build/'' @ DEFAULT_CONFIG world_with_cmake @ ''/'' @ ''src_foo_c''
                @ (if os_nt world_with_cmake then ''.exe'' else []))"
    by (rule binary_path_uses_default_config [OF mc sel _ t c _ r r]) simp_all
  from th [THEN conjunct1] have A:
    "commands (snd (project_build world_with_cmake release_arguments initial_state)) =
     [[''cmake'', ''-S'', ''.'', ''-B'', ''build'', ''-G'', ''Ninja Multi-Config'', ''-Wno-dev''],
      [''cmake'', ''--build'', ''build'', ''--target'', ''src_foo_c'', ''--config'', ''Release'']]"
    by (simp add: extra cc initial_state_def)
  from th [THEN conjunct2, THEN conjunct1] have B:
    "fst (project_build world_with_cmake release_arguments initial_state) =
       Inr (Path [] [''build'', ''Debug'', ''src_foo_c''], None)"
    by (simp add: d e)
  from th [THEN conjunct2, THEN conjunct2, THEN conjunct2] have C:
    "as_posix (exe_path world_with_cmake ''src_foo_c'' ''Ninja Multi-Config'') =
       ''build/Debug/src_foo_c''"
    by (simp add: d pl)
  from A B C show ?thesis by simp
qed

section \<open>Choosing the way to build\<close>

lemma choose_compiler_mem: "choose_compiler wh l = Some c \<Longrightarrow> c \<in> set l"
  by (induction l) (auto split: if_splits)

lemma choose_compiler_nonempty:
  assumes "choose_compiler wh (if c then PREFERRED_COMPILERS_C else PREFERRED_COMPILERS_CXX) = Some x"
  shows "x \<noteq> []"
proof -
  have "x \<in> set (if c then PREFERRED_COMPILERS_C else PREFERRED_COMPILERS_CXX)"
    using assms by (rule choose_compiler_mem)
  then show ?thesis
    by (auto simp: PREFERRED_COMPILERS_C_def PREFERRED_COMPILERS_CXX_def split: if_splits)
qed

lemma fallback_compile_eq:
  "fallback_compile w a s =
     (let compiler_list = (if is_c a then PREFERRED_COMPILERS_C else PREFERRED_COMPILERS_CXX);
          temp_dir = mkdtemp w (if is_c a then ''c-run-'' else ''cpp-run-'');
          output = joinpath temp_dir (if os_nt w then ''a.exe'' else ''a.out'')
      in case choose_compiler (which w) compiler_list of
           None \<Rightarrow>
             (Inl (SystemExit 1),
              s\<lparr>stdout := stdout s @
                   [Line (''No compiler found. Looked for: '' @ join '', '' compiler_list)]\<rparr>)
         | Some compiler \<Rightarrow>
             (let cmd = compile_cmd (arg_file a) compiler (is_c a) output;
                  compiled = s\<lparr>temp_dirs := temp_dirs s @ [temp_dir],
                               log := log s @ [''Compiling with '' @ compiler @ [CHR 0x0A]],
                               commands := commands s @ [cmd]\<rparr>
              in case run_process w cmd of
                   Exited rc \<Rightarrow>
                     if rc = 0 then (Inr (output, Some temp_dir), compiled)
                     else fail_with_log w (compilation_failed_message rc) LOG_FILE rc compiled
                 | NotStarted \<Rightarrow> (Inl (Raised OSError), compiled)))"
proof (cases "choose_compiler (which w) (if is_c a then PREFERRED_COMPILERS_C else PREFERRED_COMPILERS_CXX)")
  case None
  then show ?thesis
    by (simp add: fallback_compile_def fail_def print_def)
next
  case (Some x)
  then have ne: "x \<noteq> []"
    by (rule choose_compiler_nonempty)
  let ?out = "joinpath (mkdtemp w (if is_c a then ''c-run-'' else ''cpp-run-''))
                (if os_nt w then ''a.exe'' else ''a.out'')"
  have par: "parent ?out = mkdtemp w (if is_c a then ''c-run-'' else ''cpp-run-'')"
    by (simp add: parent_joinpath_output)
  show ?thesis
  proof (cases "run_process w (compile_cmd (arg_file a) x (is_c a) ?out)")
    case NotStarted
    with Some ne show ?thesis
      by (simp add: fallback_compile_def direct_compile_eq except_CalledProcessError_def Let_def)
  next
    case (Exited rc)
    show ?thesis
    proof (cases "rc = 0")
      case True
      with Some ne Exited par show ?thesis
        by (simp add: fallback_compile_def direct_compile_eq except_CalledProcessError_def Let_def)
    next
      case False
      with Some ne Exited show ?thesis
        by (simp add: fallback_compile_def direct_compile_eq except_CalledProcessError_def Let_def)
    qed
  qed
qed

lemma fail_with_log_rethrown:
  "(case (fail_with_log w m l c s :: (exn + 'a) \<times> state) of
      (Inl e, s2) \<Rightarrow> (Inl e, s2)
    | (Inr x, s2) \<Rightarrow> k x s2) = (fail_with_log w m l c s :: (exn + 'b) \<times> state)"
  by (simp add: fail_with_log_def Let_def)

lemma project_build_eq:
  "project_build w a s =
     (case normalize_target_in_project (resolve w) (file_abs w a) (project_root w) of
        Inl e \<Rightarrow> (Inl (Raised e), s)
      | Inr target \<Rightarrow>
          (case select_generator w a of
             Inl e \<Rightarrow> (Inl (Raised e), s)
           | Inr g \<Rightarrow>
               (let no_generator =
                      (Inl (SystemExit 1),
                       s\<lparr>stdout := stdout s @
                            [Line (''No suitable CMake generator found. Tried: ''
                                     @ join '', '' PREFERRED_GENERATORS)]\<rparr>)
                in case g of
                    None \<Rightarrow> no_generator
                  | Some gen \<Rightarrow>
                      if gen = [] then no_generator
                      else
                      (let configure = configure_cmd gen (build_config w a) (arg_cmake_arg a);
                           build = build_cmd target gen (build_config w a) (arg_build_arg a);
                           configured =
                             s\<lparr>log := log s @ [''Configuring with generator: '' @ gen @ [CHR 0x0A]],
                               commands := commands s @ [configure]\<rparr>;
                           built =
                             s\<lparr>log := log s @ [''Configuring with generator: '' @ gen @ [CHR 0x0A],
                                               ''Building target: '' @ target @ [CHR 0x0A]],
                               commands := commands s @ [configure, build]\<rparr>;
                           binary = exe_path w target gen
                       in case run_process w configure of
                            NotStarted \<Rightarrow> (Inl (Raised OSError), configured)
                          | Exited rc \<Rightarrow>
                              if rc \<noteq> 0
                              then fail_with_log w (cmake_failed_message rc) LOG_FILE rc configured
                              else
                                (case run_process w build of
                                   NotStarted \<Rightarrow> (Inl (Raised OSError), built)
                                 | Exited rc' \<Rightarrow>
                                     if rc' \<noteq> 0
                                     then fail_with_log w (cmake_failed_message rc') LOG_FILE rc' built
                                     else if exists_after_build w binary
                                     then (Inr (binary, None), built)
                                     else (Inl (SystemExit 1),
                                           built\<lparr>stdout := stdout s @
                                             [Line (''Built binary not found at ''
                                                      @ as_posix binary)]\<rparr>))))))"
proof (cases "normalize_target_in_project (resolve w) (file_abs w a) (project_root w)")
  case (Inl e)
  then show ?thesis by (simp add: project_build_def)
next
  case target: (Inr target)
  show ?thesis
  proof (cases "select_generator w a")
    case (Inl e)
    with target show ?thesis by (simp add: project_build_def)
  next
    case sel: (Inr g)
    show ?thesis
    proof (cases "truthy g")
      case False
      with target sel show ?thesis
        by (auto simp: project_build_def truthy_def fail_def print_def Let_def split: option.splits)
    next
      case True
      then obtain gen where g: "g = Some gen" "gen \<noteq> []"
        by (auto simp: truthy_def split: option.splits)
      let ?cfg = "configure_cmd gen (build_config w a) (arg_cmake_arg a)"
      let ?bld = "build_cmd target gen (build_config w a) (arg_build_arg a)"
      show ?thesis
      proof (cases "run_process w ?cfg")
        case NotStarted
        with target sel True g show ?thesis
          by (simp add: project_build_def configure_build_def subprocess_run_eq
                except_CalledProcessError_def Let_def)
      next
        case c: (Exited rc)
        show ?thesis
        proof (cases "rc = 0")
          case False
          with target sel True g c show ?thesis
            by (simp add: project_build_def configure_build_def subprocess_run_eq
                  except_CalledProcessError_def Let_def fail_with_log_rethrown)
        next
          case rc0: True
          show ?thesis
          proof (cases "run_process w ?bld")
            case NotStarted
            with target sel True g c rc0 show ?thesis
              by (simp add: project_build_def configure_build_def build_target_def
                    subprocess_run_eq except_CalledProcessError_def Let_def)
          next
            case b: (Exited rc')
            show ?thesis
            proof (cases "rc' = 0")
              case False
              with target sel True g c rc0 b show ?thesis
                by (simp add: project_build_def configure_build_def build_target_def
                      subprocess_run_eq except_CalledProcessError_def Let_def
                      fail_with_log_rethrown)
            next
              case True
              with target sel \<open>truthy g\<close> g c rc0 b show ?thesis
                by (simp add: project_build_def configure_build_def build_target_def
                      subprocess_run_eq except_CalledProcessError_def Let_def fail_def print_def)
            qed
          qed
        qed
      qed
    qed
  qed
qed

lemma in_project_iff:
  "in_project w a =
     (\<exists>rel. resolve w (parse_path (arg_file a)) =
        Path (root_of (resolve w (cwd w))) (parts_of (resolve w (cwd w)) @ rel))"
proof -
  let ?p = "resolve w (parse_path (arg_file a))" and ?q = "resolve w (cwd w)"
  have "(root_of ?p = root_of ?q \<and> take (length (parts_of ?q)) (parts_of ?p) = parts_of ?q) =
      (\<exists>rel. ?p = Path (root_of ?q) (parts_of ?q @ rel))"
  proof
    assume h: "root_of ?p = root_of ?q \<and> take (length (parts_of ?q)) (parts_of ?p) = parts_of ?q"
    then have "parts_of ?p = parts_of ?q @ drop (length (parts_of ?q)) (parts_of ?p)"
      by (metis append_take_drop_id)
    with h have "?p = Path (root_of ?q) (parts_of ?q @ drop (length (parts_of ?q)) (parts_of ?p))"
      by (metis path.collapse)
    then show "\<exists>rel. ?p = Path (root_of ?q) (parts_of ?q @ rel)" ..
  next
    assume "\<exists>rel. ?p = Path (root_of ?q) (parts_of ?q @ rel)"
    then obtain rel where eq: "?p = Path (root_of ?q) (parts_of ?q @ rel)" ..
    have "root_of ?p = root_of ?q"
      by (subst eq) simp
    moreover have "parts_of ?p = parts_of ?q @ rel"
      by (subst eq) simp
    ultimately have "root_of ?p = root_of ?q" "parts_of ?p = parts_of ?q @ rel" .
    then show "root_of ?p = root_of ?q \<and> take (length (parts_of ?q)) (parts_of ?p) = parts_of ?q"
      by simp
  qed
  then show ?thesis
    by (simp add: in_project_def file_abs_def project_root_def relative_to_def)
qed

text \<open>
  Claim C6. Lines 215 to 254, from the start of a run. The file is in the project when
  its resolved path is the resolved current directory followed by further components.
  When cmake is not on the search path, or the file is outside the project root, the
  tool takes the direct compilation:
  it prints the notice of the fallback, chooses a compiler, creates the temporary
  directory and runs the compile command, and no cmake command; the result is the
  compiled binary with the directory to remove, or the failure of the step that failed.
  Otherwise it takes the project build: it prints no notice, resolves the target and
  the generator, runs the configure command and then the build command, and no
  compiler; the result is the binary at the path \<^verbatim>\<open>exe_path\<close> computes, or the failure of
  the step that failed. The equation gives, for every case, the result and everything
  printed, logged, run and created.
\<close>

theorem strategy_selection:
  "in_project w a =
     (\<exists>rel. resolve w (parse_path (arg_file a)) =
        Path (root_of (resolve w (cwd w))) (parts_of (resolve w (cwd w)) @ rel))
   \<and> prepare w a initial_state =
     (if which w ''cmake'' = None \<or> \<not> in_project w a
      then
        (let notice = (if which w ''cmake'' = None then notice_no_cmake else notice_outside);
             compiler_list = (if is_c a then PREFERRED_COMPILERS_C else PREFERRED_COMPILERS_CXX);
             temp_dir = mkdtemp w (if is_c a then ''c-run-'' else ''cpp-run-'');
             output = joinpath temp_dir (if os_nt w then ''a.exe'' else ''a.out'')
         in case choose_compiler (which w) compiler_list of
              None \<Rightarrow>
                (Inl (SystemExit 1),
                 \<lparr>stdout = [Line notice,
                            Line (''No compiler found. Looked for: '' @ join '', '' compiler_list)],
                  log = [], commands = [], temp_dirs = []\<rparr>)
            | Some compiler \<Rightarrow>
                (let cmd = compile_cmd (arg_file a) compiler (is_c a) output;
                     compiled = \<lparr>stdout = [Line notice],
                                 log = [''Compiling with '' @ compiler @ [CHR 0x0A]],
                                 commands = [cmd], temp_dirs = [temp_dir]\<rparr>
                 in case run_process w cmd of
                      Exited rc \<Rightarrow>
                        if rc = 0 then (Inr (output, Some temp_dir), compiled)
                        else fail_with_log w (compilation_failed_message rc) LOG_FILE rc compiled
                    | NotStarted \<Rightarrow> (Inl (Raised OSError), compiled)))
      else
        (case normalize_target_in_project (resolve w) (file_abs w a) (project_root w) of
           Inl e \<Rightarrow> (Inl (Raised e), \<lparr>stdout = [], log = [], commands = [], temp_dirs = []\<rparr>)
         | Inr target \<Rightarrow>
             (case select_generator w a of
                Inl e \<Rightarrow>
                  (Inl (Raised e), \<lparr>stdout = [], log = [], commands = [], temp_dirs = []\<rparr>)
              | Inr g \<Rightarrow>
                  (let no_generator =
                         (Inl (SystemExit 1),
                          \<lparr>stdout = [Line (''No suitable CMake generator found. Tried: ''
                                              @ join '', '' PREFERRED_GENERATORS)],
                           log = [], commands = [], temp_dirs = []\<rparr>)
                   in case g of
                        None \<Rightarrow> no_generator
                      | Some gen \<Rightarrow>
                          if gen = [] then no_generator
                          else
                            (let configure =
                                   configure_cmd gen (build_config w a) (arg_cmake_arg a);
                                 build =
                                   build_cmd target gen (build_config w a) (arg_build_arg a);
                                 configured =
                                   \<lparr>stdout = [],
                                    log = [''Configuring with generator: '' @ gen @ [CHR 0x0A]],
                                    commands = [configure], temp_dirs = []\<rparr>;
                                 built =
                                   \<lparr>stdout = [],
                                    log = [''Configuring with generator: '' @ gen @ [CHR 0x0A],
                                           ''Building target: '' @ target @ [CHR 0x0A]],
                                    commands = [configure, build], temp_dirs = []\<rparr>;
                                 binary = exe_path w target gen
                             in case run_process w configure of
                                  NotStarted \<Rightarrow> (Inl (Raised OSError), configured)
                                | Exited rc \<Rightarrow>
                                    if rc \<noteq> 0
                                    then fail_with_log w (cmake_failed_message rc) LOG_FILE rc
                                           configured
                                    else
                                      (case run_process w build of
                                         NotStarted \<Rightarrow> (Inl (Raised OSError), built)
                                       | Exited rc' \<Rightarrow>
                                           if rc' \<noteq> 0
                                           then fail_with_log w (cmake_failed_message rc')
                                                  LOG_FILE rc' built
                                           else if exists_after_build w binary
                                           then (Inr (binary, None), built)
                                           else (Inl (SystemExit 1),
                                                 built\<lparr>stdout :=
                                                   [Line (''Built binary not found at ''
                                                            @ as_posix binary)]\<rparr>)))))))"
  apply (rule conjI [OF in_project_iff])
  subgoal
proof (cases "which w ''cmake'' = None \<or> \<not> in_project w a")
  case True
  define n where "n = (if which w ''cmake'' = None then notice_no_cmake else notice_outside)"
  have p: "prepare w a initial_state = fallback_compile w a (print n initial_state)"
    using True by (auto simp: prepare_def n_def)
  have s: "print n initial_state = \<lparr>stdout = [Line n], log = [], commands = [], temp_dirs = []\<rparr>"
    by (simp add: print_def initial_state_def)
  show ?thesis
    unfolding p s fallback_compile_eq n_def [symmetric]
    using True by (simp add: Let_def split: option.splits process_result.splits)
next
  case False
  then have p: "prepare w a initial_state = project_build w a initial_state"
    by (auto simp: prepare_def)
  from False have c: "(which w ''cmake'' = None \<or> \<not> in_project w a) = False"
    by simp
  show ?thesis
    unfolding p c project_build_eq
    by (simp add: initial_state_def Let_def
          split: sum.splits option.splits process_result.splits)
qed
  done

text \<open>
  Without cmake the C compiler is run on \<^verbatim>\<open>src/foo.c\<close>; with cmake and the file in the
  project, cmake configures and builds the target \<^verbatim>\<open>src_foo_c\<close>; with cmake and a file
  outside the project, the fallback is announced and finds no C++ compiler.
\<close>

theorem strategy_selection_witness:
  "prepare world_without_cmake example_arguments initial_state =
     (Inr (Path ''/'' [''tmp'', ''c-run-k3x9'', ''a.out''],
           Some (Path ''/'' [''tmp'', ''c-run-k3x9''])),
      \<lparr>stdout =
         [Line ''CMake is not installed or not on PATH; falling back to direct compilation.''],
       log = [''Compiling with cc'' @ [CHR 0x0A]],
       commands = [[''cc'', ''src/foo.c'', ''-std=c17'', ''-O0'', ''-g'', ''-o'',
                    ''/tmp/c-run-k3x9/a.out'']],
       temp_dirs = [Path ''/'' [''tmp'', ''c-run-k3x9'']]\<rparr>)
   \<and> prepare world_with_cmake example_arguments initial_state =
     (Inr (Path [] [''build'', ''Debug'', ''src_foo_c''], None),
      \<lparr>stdout = [],
       log = [''Configuring with generator: Ninja Multi-Config'' @ [CHR 0x0A],
              ''Building target: src_foo_c'' @ [CHR 0x0A]],
       commands = [[''cmake'', ''-S'', ''.'', ''-B'', ''build'', ''-G'', ''Ninja Multi-Config'',
                    ''-Wno-dev''],
                   [''cmake'', ''--build'', ''build'', ''--target'', ''src_foo_c'', ''--config'',
                    ''Debug'']],
       temp_dirs = []\<rparr>)
   \<and> prepare world_with_cmake (example_arguments\<lparr>arg_file := ''/tmp/x.cpp''\<rparr>) initial_state =
     (Inl (SystemExit 1),
      \<lparr>stdout =
         [Line ''Warning: the provided file is outside this project; falling back to direct compilation.'',
          Line ''No compiler found. Looked for: c++, g++, clang++, cl''],
       log = [], commands = [], temp_dirs = []\<rparr>)"
  unfolding strategy_selection [THEN conjunct2] by code_simp

end
